theory Spec2Isabelle
  imports Main "HOL-Library.Word"
begin

section \<open>Common data: bytes, exceptions, traced computations\<close>

type_synonym byte = "8 word"

text \<open>
  The alert codes that \<open>tls_callbacks.cpp\<close> raises. \<open>Other_Alert\<close> stands for every
  other code a collaborator may raise.
\<close>

datatype alert = BadCertificate | DecodeError | IllegalParameter | HandshakeFailure
  | Other_Alert nat

text \<open>
  The exception classes that the sources throw or catch, each with its message.
  A class derived from \<open>Decoding_Error\<close> (the BER decoder's own errors) is a
  \<open>Decoding_Error\<close> here, as it is for a \<open>catch(const Decoding_Error&)\<close>.
  \<open>Other_Exception\<close> stands for every class the sources do not name.
\<close>

datatype error =
    Invalid_Argument string
  | Invalid_State string
  | Internal_Error string
  | Decoding_Error string
  | Encoding_Error string
  | Illegal_Point string
  | TLS_Exception alert string
  | Other_Exception string

text \<open>
  A computation that calls collaborators: the list of the calls made, in order, and
  either the exception that ended it or its value.
\<close>

type_synonym ('e, 'a) comp = "'e list \<times> (error + 'a)"

definition ret :: "'a \<Rightarrow> ('e, 'a) comp" where
  "ret x = ([], Inr x)"

definition throw :: "error \<Rightarrow> ('e, 'a) comp" where
  "throw e = ([], Inl e)"

definition call :: "'e \<Rightarrow> error + 'a \<Rightarrow> ('e, 'a) comp" where
  "call ev r = ([ev], r)"

definition seq :: "('e, 'a) comp \<Rightarrow> ('a \<Rightarrow> ('e, 'b) comp) \<Rightarrow> ('e, 'b) comp" where
  "seq m f =
     (case m of
        (t, Inl e) \<Rightarrow> (t, Inl e)
      | (t, Inr x) \<Rightarrow> (case f x of (t', r) \<Rightarrow> (t @ t', r)))"

text \<open>
  C++ does not fix the order in which the arguments of one call are evaluated: each run
  evaluates them in some order, one after the other. Where two arguments of a call are
  themselves calls, the order taken at that call is a parameter.
\<close>

datatype arg_order = Left_to_right | Right_to_left

definition args2 ::
  "arg_order \<Rightarrow> ('e, 'a) comp \<Rightarrow> ('e, 'b) comp \<Rightarrow> ('e, 'a \<times> 'b) comp" where
  "args2 ord m1 m2 =
     (case ord of
        Left_to_right \<Rightarrow> seq m1 (\<lambda>x. seq m2 (\<lambda>y. ret (x, y)))
      | Right_to_left \<Rightarrow> seq m2 (\<lambda>y. seq m1 (\<lambda>x. ret (x, y))))"

section \<open>TLS callbacks: session retention\<close>

text \<open>
  Modelled from the spec: \<open>Session\<close> is declared outside the sources ("Session
  Metadata: protocol version + an advisory lifetime hint (duration)"). The function
  reads two things of it:
  \<open>lifetime_hint().count()\<close>, the count of a \<open>std::chrono::seconds\<close> (a signed
  integer), and \<open>version()\<close>, of which only \<open>is_pre_tls_13()\<close> is asked.
\<close>

record 'v Session =
  lifetime_hint :: int
  version :: 'v

definition tls_should_persist_resumption_information ::
  "('v \<Rightarrow> bool) \<Rightarrow> 'v Session \<Rightarrow> bool" where
  "tls_should_persist_resumption_information is_pre_tls_13 session \<longleftrightarrow>
     lifetime_hint session > 0 \<or> is_pre_tls_13 (version session)"

section \<open>Large integers\<close>

text \<open>
  Modelled from the spec: \<open>BigInt\<close>, the large-integer library, is outside the sources.
  A \<open>BigInt\<close> is a signed integer of any size. \<open>BigInt::decode\<close> reads a byte string as
  a big-endian number, so its result is never negative; \<open>bytes()\<close> is the length of the
  minimal big-endian form of the magnitude; \<open>encode_1363(n, bytes)\<close> writes the
  magnitude big-endian into exactly \<open>bytes\<close> bytes, padded with zeros on the left, and
  throws when it does not fit ("the scalar in its minimal fixed-width big-endian byte
  form" when called with \<open>bytes = n.bytes()\<close>).
\<close>

definition BigInt_decode :: "byte list \<Rightarrow> int" where
  "BigInt_decode buf = foldl (\<lambda>acc b. acc * 256 + uint b) 0 buf"

fun big_endian :: "nat \<Rightarrow> byte list" where
  "big_endian n = (if n = 0 then [] else big_endian (n div 256) @ [of_nat (n mod 256)])"

declare big_endian.simps [simp del]

definition BigInt_bytes :: "int \<Rightarrow> nat" where
  "BigInt_bytes n = length (big_endian (nat \<bar>n\<bar>))"

definition BigInt_encode_1363 :: "int \<Rightarrow> nat \<Rightarrow> error + byte list" where
  "BigInt_encode_1363 n bytes =
     (let n_bytes = BigInt_bytes n in
      if n_bytes > bytes
      then Inl (Encoding_Error ''encode_1363: n is too large to encode properly'')
      else Inr (replicate (bytes - n_bytes) 0 @ big_endian (nat \<bar>n\<bar>)))"

section \<open>EC key model (\<open>ecc_key.cpp\<close>)\<close>

text \<open>
  Modelled from the spec: the key classes are declared outside the sources. Domain
  parameters are as the spec's data model lists them; \<open>ecc_key.cpp\<close> reads the curve,
  the base point and the order. The curve type \<open>'cv\<close> and the point type \<open>'pt\<close> belong
  to the point arithmetic library. A public key holds the three members that the
  constructors assign, a private key the scalar as well.
\<close>

record ('cv, 'pt) EC_Domain_Params =
  get_curve :: 'cv
  get_base_point :: 'pt
  get_order :: int
  get_cofactor :: int
  get_oid :: string

datatype EC_Domain_Params_Encoding =
  EC_DOMPAR_ENC_EXPLICIT | EC_DOMPAR_ENC_IMPLICITCA | EC_DOMPAR_ENC_OID

record AlgorithmIdentifier =
  oid :: string
  parameters :: "byte list"

record ('cv, 'pt) EC_PublicKey =
  domain_params :: "('cv, 'pt) EC_Domain_Params"
  public_key :: 'pt
  domain_encoding :: EC_Domain_Params_Encoding

record ('cv, 'pt) EC_PrivateKey = "('cv, 'pt) EC_PublicKey" +
  private_key :: int

text \<open>
  The collaborators of \<open>ecc_key.cpp\<close>, none of them in the sources:
  \<^item> \<open>mult P k\<close> is \<open>P * k\<close>, the scalar multiple of a point;
  \<^item> \<open>check_invariants P\<close> is \<open>P.check_invariants()\<close>: \<open>None\<close> when it returns, the
    exception when it throws (\<open>Illegal_Point\<close> for a point that violates the curve
    invariants);
  \<^item> \<open>OS2ECP bits curve\<close> decodes an encoded point;
  \<^item> \<open>decode_domain_params bits\<close> is the constructor \<open>EC_Domain_Params(alg_id.parameters)\<close>;
  \<^item> \<open>random_integer rng lo hi\<close> is \<open>BigInt::random_integer\<close>;
  \<^item> \<open>DER_encode_key v octets\<close> is the DER encoder run on
    \<open>start_cons(SEQUENCE).encode(v).encode(octets, OCTET_STRING).end_cons()\<close>;
  \<^item> \<open>BER_decode_key bits\<close> is the BER decoder run on
    \<open>start_cons(SEQUENCE).decode(version).decode(octstr_secret, OCTET_STRING).verify_end().end_cons()\<close>,
    giving the \<open>u32bit\<close> version and the octet string, or the decoder's exception.
\<close>

record ('cv, 'pt, 'rng) ecc_env =
  mult :: "'pt \<Rightarrow> int \<Rightarrow> 'pt"
  check_invariants :: "'pt \<Rightarrow> error option"
  OS2ECP :: "byte list \<Rightarrow> 'cv \<Rightarrow> error + 'pt"
  decode_domain_params :: "byte list \<Rightarrow> error + ('cv, 'pt) EC_Domain_Params"
  random_integer :: "'rng \<Rightarrow> int \<Rightarrow> int \<Rightarrow> error + int"
  DER_encode_key :: "int \<Rightarrow> byte list \<Rightarrow> byte list"
  BER_decode_key :: "byte list \<Rightarrow> error + (32 word \<times> byte list)"

text \<open>
  \<open>try { P.check_invariants(); } catch(Illegal_Point) { throw e'; }\<close>: an
  \<open>Illegal_Point\<close> becomes \<open>e'\<close>, any other exception passes through.
\<close>

definition catch_Illegal_Point :: "error option \<Rightarrow> error \<Rightarrow> error option" where
  "catch_Illegal_Point r e' =
     (case r of
        None \<Rightarrow> None
      | Some (Illegal_Point m) \<Rightarrow> Some e'
      | Some e \<Rightarrow> Some e)"

text \<open>\<open>EC_PublicKey::EC_PublicKey(const AlgorithmIdentifier&, const MemoryRegion<byte>&)\<close>\<close>

definition EC_PublicKey_decode ::
  "('cv, 'pt, 'rng) ecc_env \<Rightarrow> AlgorithmIdentifier \<Rightarrow> byte list
     \<Rightarrow> error + ('cv, 'pt) EC_PublicKey" where
  "EC_PublicKey_decode c alg_id key_bits =
     (case decode_domain_params c (parameters alg_id) of
        Inl e \<Rightarrow> Inl e
      | Inr dpar \<Rightarrow>
          (case OS2ECP c key_bits (get_curve dpar) of
             Inl e \<Rightarrow> Inl e
           | Inr pub \<Rightarrow>
               (case catch_Illegal_Point (check_invariants c pub)
                       (Decoding_Error ''Invalid public point; not on curve'') of
                  Some e \<Rightarrow> Inl e
                | None \<Rightarrow>
                    Inr \<lparr>domain_params = dpar, public_key = pub,
                         domain_encoding = EC_DOMPAR_ENC_EXPLICIT\<rparr>)))"

text \<open>\<open>EC_PrivateKey::private_value()\<close>\<close>

definition private_value :: "('cv, 'pt) EC_PrivateKey \<Rightarrow> error + int" where
  "private_value k =
     (if private_key k = 0
      then Inl (Invalid_State ''EC_PrivateKey::private_value - uninitialized'')
      else Inr (private_key k))"

text \<open>
  \<open>EC_PrivateKey::EC_PrivateKey(const EC_Domain_Params&, const BigInt&)\<close>. The body has
  no \<open>throw\<close> and no \<open>try\<close>, so the result is the key itself.
\<close>

definition EC_PrivateKey_of_scalar ::
  "('cv, 'pt, 'rng) ecc_env \<Rightarrow> ('cv, 'pt) EC_Domain_Params \<Rightarrow> int
     \<Rightarrow> ('cv, 'pt) EC_PrivateKey" where
  "EC_PrivateKey_of_scalar c dom_par priv_key =
     \<lparr>domain_params = dom_par,
      public_key = mult c (get_base_point dom_par) priv_key,
      domain_encoding = EC_DOMPAR_ENC_EXPLICIT,
      private_key = priv_key\<rparr>"

text \<open>\<open>EC_PrivateKey::EC_PrivateKey(RandomNumberGenerator&, const EC_Domain_Params&)\<close>\<close>

definition EC_PrivateKey_generate ::
  "('cv, 'pt, 'rng) ecc_env \<Rightarrow> 'rng \<Rightarrow> ('cv, 'pt) EC_Domain_Params
     \<Rightarrow> error + ('cv, 'pt) EC_PrivateKey" where
  "EC_PrivateKey_generate c rng dom_par =
     (case random_integer c rng 1 (get_order dom_par) of
        Inl e \<Rightarrow> Inl e
      | Inr priv \<Rightarrow>
          (let pub = mult c (get_base_point dom_par) priv in
           case catch_Illegal_Point (check_invariants c pub)
                  (Internal_Error ''ECC private key generation failed'') of
             Some e \<Rightarrow> Inl e
           | None \<Rightarrow>
               Inr \<lparr>domain_params = dom_par, public_key = pub,
                    domain_encoding = EC_DOMPAR_ENC_EXPLICIT, private_key = priv\<rparr>))"

text \<open>\<open>EC_PrivateKey::pkcs8_private_key()\<close>\<close>

definition pkcs8_private_key ::
  "('cv, 'pt, 'rng) ecc_env \<Rightarrow> ('cv, 'pt) EC_PrivateKey \<Rightarrow> error + byte list" where
  "pkcs8_private_key c k =
     (case BigInt_encode_1363 (private_key k) (BigInt_bytes (private_key k)) of
        Inl e \<Rightarrow> Inl e
      | Inr octets \<Rightarrow> Inr (DER_encode_key c 1 octets))"

text \<open>\<open>EC_PrivateKey::EC_PrivateKey(const AlgorithmIdentifier&, const MemoryRegion<byte>&)\<close>\<close>

definition EC_PrivateKey_decode ::
  "('cv, 'pt, 'rng) ecc_env \<Rightarrow> AlgorithmIdentifier \<Rightarrow> byte list
     \<Rightarrow> error + ('cv, 'pt) EC_PrivateKey" where
  "EC_PrivateKey_decode c alg_id key_bits =
     (case decode_domain_params c (parameters alg_id) of
        Inl e \<Rightarrow> Inl e
      | Inr dpar \<Rightarrow>
          (case BER_decode_key c key_bits of
             Inl e \<Rightarrow> Inl e
           | Inr (ver, octstr_secret) \<Rightarrow>
               if ver \<noteq> 1
               then Inl (Decoding_Error ''Wrong key format version for EC key'')
               else
                 (let priv = BigInt_decode octstr_secret;
                      pub = mult c (get_base_point dpar) priv in
                  case catch_Illegal_Point (check_invariants c pub)
                         (Internal_Error ''Loaded ECC private key failed self test'') of
                    Some e \<Rightarrow> Inl e
                  | None \<Rightarrow>
                      Inr \<lparr>domain_params = dpar, public_key = pub,
                           domain_encoding = EC_DOMPAR_ENC_EXPLICIT,
                           private_key = priv\<rparr>)))"

section \<open>TLS callbacks: ephemeral key agreement (\<open>tls_callbacks.cpp\<close>)\<close>

text \<open>
  Modelled from the spec: \<open>DL_Group\<close> is declared outside the sources; the spec gives
  it a prime modulus, a generator and a subgroup order, and the code reads \<open>get_p()\<close>.
\<close>

record DL_Group =
  get_p :: int
  get_g :: int
  get_q :: int

text \<open>
  \<open>std::variant<TLS::Group_Params, DL_Group>\<close>. The enumeration \<open>Group_Params\<close> is
  declared outside the sources and is the type \<open>'gp\<close> here.
\<close>

datatype 'gp group_variant = Holds_Group_Params 'gp | Holds_DL_Group DL_Group

text \<open>
  The key classes that the two operations construct. What \<open>DH_PublicKey(dl_group, Y)\<close>,
  \<open>ECDH_PublicKey(ec_group, point)\<close> and \<open>Curve25519_PublicKey(public_value)\<close> receive
  is what the constructors here hold; a private key holds its group and the secret that
  its generating constructor drew. \<open>'ec\<close> is \<open>EC_Group\<close>, \<open>'pt\<close> the point type.
\<close>

datatype ('ec, 'pt) PK_Public_Key =
    DH_PublicKey DL_Group int
  | ECDH_PublicKey 'ec 'pt
  | Curve25519_PublicKey "byte list"

datatype 'ec PK_Key_Agreement_Key =
    DH_PrivateKey DL_Group int
  | ECDH_PrivateKey 'ec int
  | X25519_PrivateKey "byte list"

text \<open>
  \<open>TLS::Policy\<close>, with the three members the callbacks use. \<open>check_peer_key_acceptable\<close>
  returns or throws.
\<close>

record ('ec, 'pt) Policy =
  require_cert_revocation_info :: bool
  minimum_signature_strength :: nat
  check_peer_key_acceptable :: "('ec, 'pt) PK_Public_Key \<Rightarrow> error + unit"

text \<open>
  What key agreement uses and the sources do not hold:
  \<^item> \<open>is_dh\<close>, \<open>is_ecdh\<close>, \<open>is_x25519\<close> and \<open>group_param_to_string\<close> on \<open>Group_Params\<close>;
  \<^item> \<open>BOTAN_HAS_CURVE_25519\<close>, the build flag around the X25519 branches;
  \<^item> \<open>DL_Group_by_name\<close> and \<open>EC_Group_by_name\<close>, the constructors \<open>DL_Group(name)\<close>
    and \<open>EC_Group(name)\<close>;
  \<^item> \<open>EC_Group_OS2ECP\<close>, the point decoder \<open>ec_group.OS2ECP(public_value)\<close>;
  \<^item> \<open>DH_generate\<close>, \<open>ECDH_generate\<close>, \<open>X25519_generate\<close>: the secret that
    \<open>DH_PrivateKey(rng, dl_group)\<close>, \<open>ECDH_PrivateKey(rng, ec_group)\<close> and
    \<open>X25519_PrivateKey(rng)\<close> draw (how the random source advances is observed by no
    property below, so it is not returned);
  \<^item> \<open>public_value\<close>, the member \<open>pk.public_value()\<close>;
  \<^item> \<open>derive_key sk rng v\<close>, which is
    \<open>PK_Key_Agreement(sk, rng, "Raw").derive_key(0, v).bits_of()\<close>.
\<close>

record ('gp, 'ec, 'pt, 'rng) kex_env =
  is_dh :: "'gp \<Rightarrow> bool"
  is_ecdh :: "'gp \<Rightarrow> bool"
  is_x25519 :: "'gp \<Rightarrow> bool"
  group_param_to_string :: "'gp \<Rightarrow> string"
  BOTAN_HAS_CURVE_25519 :: bool
  DL_Group_by_name :: "string \<Rightarrow> error + DL_Group"
  EC_Group_by_name :: "string \<Rightarrow> error + 'ec"
  EC_Group_OS2ECP :: "'ec \<Rightarrow> byte list \<Rightarrow> error + 'pt"
  DH_generate :: "'rng \<Rightarrow> DL_Group \<Rightarrow> error + int"
  ECDH_generate :: "'rng \<Rightarrow> 'ec \<Rightarrow> error + int"
  X25519_generate :: "'rng \<Rightarrow> error + byte list"
  public_value :: "('ec, 'pt) PK_Public_Key \<Rightarrow> byte list"
  derive_key :: "'ec PK_Key_Agreement_Key \<Rightarrow> 'rng \<Rightarrow> byte list \<Rightarrow> error + byte list"

text \<open>
  The calls of \<open>tls_ephemeral_key_agreement\<close> that examine the peer's value or use the
  keys: decoding the peer's point, the policy check, the agreement computation.
\<close>

datatype ('ec, 'pt) kex_event =
    Point_decode 'ec "byte list"
  | Policy_check "('ec, 'pt) PK_Public_Key"
  | Key_agreement "'ec PK_Key_Agreement_Key" "('ec, 'pt) PK_Public_Key"

definition and_then :: "error + 'a \<Rightarrow> ('a \<Rightarrow> error + 'b) \<Rightarrow> error + 'b" where
  "and_then r f = (case r of Inl e \<Rightarrow> Inl e | Inr x \<Rightarrow> f x)"

definition untraced :: "error + 'a \<Rightarrow> ('e, 'a) comp" where
  "untraced r = ([], r)"

text \<open>
  \<open>is_dh_group\<close>: \<open>std::holds_alternative<DL_Group>(group) ||
  is_dh(std::get<TLS::Group_Params>(group))\<close>; the right operand is evaluated only when
  the variant holds a \<open>Group_Params\<close>.
\<close>

definition is_dh_group :: "('gp, 'ec, 'pt, 'rng) kex_env \<Rightarrow> 'gp group_variant \<Rightarrow> bool" where
  "is_dh_group c grp =
     (case grp of
        Holds_DL_Group dl_group \<Rightarrow> True
      | Holds_Group_Params group_param \<Rightarrow> is_dh c group_param)"

text \<open>
  \<open>get_dl_group\<close>. A failed \<open>BOTAN_ASSERT_NOMSG\<close> throws an internal error (its message
  names the expression).
\<close>

definition get_dl_group ::
  "('gp, 'ec, 'pt, 'rng) kex_env \<Rightarrow> 'gp group_variant \<Rightarrow> error + DL_Group" where
  "get_dl_group c grp =
     (if \<not> is_dh_group c grp
      then Inl (Internal_Error ''False assertion is_dh_group(group)'')
      else
        (case grp of
           Holds_DL_Group dl_group \<Rightarrow> Inr dl_group
         | Holds_Group_Params group_param \<Rightarrow>
             DL_Group_by_name c (group_param_to_string c group_param)))"

definition tls_generate_ephemeral_key ::
  "('gp, 'ec, 'pt, 'rng) kex_env \<Rightarrow> 'gp group_variant \<Rightarrow> 'rng
     \<Rightarrow> error + 'ec PK_Key_Agreement_Key" where
  "tls_generate_ephemeral_key c grp rng =
     (if is_dh_group c grp then
        and_then (get_dl_group c grp) (\<lambda>dl_group.
        and_then (DH_generate c rng dl_group) (\<lambda>x.
        Inr (DH_PrivateKey dl_group x)))
      else
        (case grp of
           Holds_DL_Group dl_group \<Rightarrow>
             Inl (Internal_Error
                    ''False assertion std::holds_alternative<TLS::Group_Params>(group)'')
         | Holds_Group_Params group_params \<Rightarrow>
             if is_ecdh c group_params then
               and_then (EC_Group_by_name c (group_param_to_string c group_params))
                 (\<lambda>ec_group.
               and_then (ECDH_generate c rng ec_group) (\<lambda>x.
               Inr (ECDH_PrivateKey ec_group x)))
             else if BOTAN_HAS_CURVE_25519 c \<and> is_x25519 c group_params then
               and_then (X25519_generate c rng) (\<lambda>x. Inr (X25519_PrivateKey x))
             else
               Inl (TLS_Exception DecodeError
                      ''cannot create a key offering without a group definition'')))"

text \<open>The lambda \<open>agree\<close> of \<open>tls_ephemeral_key_agreement\<close>.\<close>

definition agree ::
  "('gp, 'ec, 'pt, 'rng) kex_env \<Rightarrow> 'rng \<Rightarrow> 'ec PK_Key_Agreement_Key
     \<Rightarrow> ('ec, 'pt) PK_Public_Key \<Rightarrow> (('ec, 'pt) kex_event, byte list) comp" where
  "agree c rng sk pk = call (Key_agreement sk pk) (derive_key c sk rng (public_value c pk))"

definition tls_ephemeral_key_agreement ::
  "('gp, 'ec, 'pt, 'rng) kex_env \<Rightarrow> 'gp group_variant \<Rightarrow> 'ec PK_Key_Agreement_Key
     \<Rightarrow> byte list \<Rightarrow> 'rng \<Rightarrow> ('ec, 'pt) Policy
     \<Rightarrow> (('ec, 'pt) kex_event, byte list) comp" where
  "tls_ephemeral_key_agreement c grp own_key pub_value rng policy =
     (if is_dh_group c grp then
        seq (untraced (get_dl_group c grp)) (\<lambda>dl_group.
        let Y = BigInt_decode pub_value in
        if Y \<le> 1 \<or> Y \<ge> get_p dl_group - 1 then
          throw (TLS_Exception IllegalParameter ''Server sent bad DH key for DHE exchange'')
        else
          (let peer_key = DH_PublicKey dl_group Y in
           seq (call (Policy_check peer_key) (check_peer_key_acceptable policy peer_key))
             (\<lambda>u. agree c rng own_key peer_key)))
      else
        (case grp of
           Holds_DL_Group dl_group \<Rightarrow>
             throw (Internal_Error
                      ''False assertion std::holds_alternative<TLS::Group_Params>(group)'')
         | Holds_Group_Params group_params \<Rightarrow>
             if is_ecdh c group_params then
               seq (untraced (EC_Group_by_name c (group_param_to_string c group_params)))
                 (\<lambda>ec_group.
               seq (call (Point_decode ec_group pub_value)
                      (EC_Group_OS2ECP c ec_group pub_value)) (\<lambda>point.
               let peer_key = ECDH_PublicKey ec_group point in
               seq (call (Policy_check peer_key) (check_peer_key_acceptable policy peer_key))
                 (\<lambda>u. agree c rng own_key peer_key)))
             else if BOTAN_HAS_CURVE_25519 c \<and> is_x25519 c group_params then
               (if length pub_value \<noteq> 32 then
                  throw (TLS_Exception HandshakeFailure ''Invalid X25519 key size'')
                else
                  (let peer_key = Curve25519_PublicKey pub_value in
                   seq (call (Policy_check peer_key)
                          (check_peer_key_acceptable policy peer_key))
                     (\<lambda>u. agree c rng own_key peer_key)))
             else
               throw (TLS_Exception IllegalParameter
                        ''Did not recognize the key exchange group'')))"

section \<open>TLS callbacks: certificate chain and OCSP (\<open>tls_callbacks.cpp\<close>)\<close>

text \<open>
  Modelled from the spec: \<open>Usage_Type\<close>, the restrictions and the result of path
  validation are declared outside the sources. The code names one usage ("server-auth
  vs. other"), builds the restrictions from the policy's two settings and reads the
  result's success flag and diagnostic string.
\<close>

datatype Usage_Type = TLS_SERVER_AUTH | Other_Usage nat

record Path_Validation_Restrictions =
  require_revocation_information :: bool
  minimum_key_strength :: nat

record Path_Validation_Result =
  successful_validation :: bool
  result_string :: string

text \<open>
  The callbacks object's own overridable members and the path validator:
  \<open>tls_current_timestamp()\<close> (a time in seconds), \<open>tls_verify_cert_chain_ocsp_timeout()\<close>
  (milliseconds), \<open>x509_path_validate\<close>, and the constructor \<open>OCSP::Response(raw_response)\<close>.
  Certificates, OCSP responses and certificate stores are the types \<open>'cert\<close>, \<open>'ocsp\<close>
  and \<open>'store\<close>. The last two fields are the order in which the run evaluates the two
  policy reads, which are the arguments of the constructor of the restrictions, and the
  clock and timeout reads, which are arguments of the call of \<open>x509_path_validate\<close>.
\<close>

record ('cert, 'ocsp, 'store) cert_env =
  tls_current_timestamp :: nat
  tls_verify_cert_chain_ocsp_timeout :: nat
  x509_path_validate ::
    "'cert list \<Rightarrow> Path_Validation_Restrictions \<Rightarrow> 'store list \<Rightarrow> string \<Rightarrow> Usage_Type
       \<Rightarrow> nat \<Rightarrow> nat \<Rightarrow> 'ocsp option list \<Rightarrow> error + Path_Validation_Result"
  OCSP_Response :: "byte list \<Rightarrow> error + 'ocsp"
  restrictions_arg_order :: arg_order
  path_validate_arg_order :: arg_order

text \<open>
  The calls of \<open>tls_verify_cert_chain\<close>, with the arguments that path validation
  receives. The two policy reads build the restrictions; the trust anchors are looked up
  inside path validation. The restrictions are built in a statement of their own, so
  both policy reads come before the clock and timeout reads, and all four come before
  the call of path validation whose arguments they make.
\<close>

datatype ('cert, 'ocsp, 'store) verify_event =
    Read_require_cert_revocation_info
  | Read_minimum_signature_strength
  | Read_current_timestamp
  | Read_ocsp_timeout
  | Path_validate "'cert list" Path_Validation_Restrictions "'store list" string Usage_Type
      nat nat "'ocsp option list"

definition tls_verify_cert_chain ::
  "('cert, 'ocsp, 'store) cert_env \<Rightarrow> 'cert list \<Rightarrow> 'ocsp option list \<Rightarrow> 'store list
     \<Rightarrow> Usage_Type \<Rightarrow> string \<Rightarrow> ('ec, 'pt) Policy
     \<Rightarrow> (('cert, 'ocsp, 'store) verify_event, unit) comp" where
  "tls_verify_cert_chain c cert_chain ocsp_responses trusted_roots usage hostname policy =
     (if cert_chain = [] then throw (Invalid_Argument ''Certificate chain was empty'')
      else
        seq (args2 (restrictions_arg_order c)
               (call Read_require_cert_revocation_info
                  (Inr (require_cert_revocation_info policy)))
               (call Read_minimum_signature_strength
                  (Inr (minimum_signature_strength policy)))) (\<lambda>(revocation, strength).
        let restrictions =
              \<lparr>require_revocation_information = revocation,
               minimum_key_strength = strength\<rparr>;
            host = (if usage = TLS_SERVER_AUTH then hostname else '''')
        in
        seq (args2 (path_validate_arg_order c)
               (call Read_current_timestamp (Inr (tls_current_timestamp c)))
               (call Read_ocsp_timeout (Inr (tls_verify_cert_chain_ocsp_timeout c))))
          (\<lambda>(now, timeout).
        seq (call (Path_validate cert_chain restrictions trusted_roots host usage now
                     timeout ocsp_responses)
               (x509_path_validate c cert_chain restrictions trusted_roots host usage now
                  timeout ocsp_responses)) (\<lambda>result.
        if \<not> successful_validation result then
          throw (TLS_Exception BadCertificate
                   (''Certificate validation failure: '' @ result_string result))
        else ret ()))))"

definition tls_parse_ocsp_response ::
  "('cert, 'ocsp, 'store) cert_env \<Rightarrow> byte list \<Rightarrow> error + 'ocsp option" where
  "tls_parse_ocsp_response c raw_response =
     (case OCSP_Response c raw_response of
        Inr response \<Rightarrow> Inr (Some response)
      | Inl (Decoding_Error m) \<Rightarrow> Inr None
      | Inl e \<Rightarrow> Inl e)"

section \<open>Small instances of the collaborators\<close>

text \<open>
  Concrete collaborators on which the properties below are evaluated: affine point
  arithmetic on a short Weierstrass curve \<open>y\<^sup>2 = x\<^sup>3 + a x + b\<close> over a small prime field
  (a point carries its curve \<open>(p, a, b)\<close>; \<open>None\<close> is the point at infinity), one-byte
  encodings of points and domain parameters, and DER with short lengths.
\<close>

type_synonym toy_curve = "int \<times> int \<times> int"
type_synonym toy_point = "toy_curve \<times> (int \<times> int) option"

definition toy_inverse :: "int \<Rightarrow> int \<Rightarrow> int" where
  "toy_inverse p x = (x mod p) ^ nat (p - 2) mod p"

fun toy_add :: "toy_point \<Rightarrow> toy_point \<Rightarrow> toy_point" where
  "toy_add (cv, None) Q = Q"
| "toy_add P (cv, None) = P"
| "toy_add ((p, a, b), Some (x1, y1)) (cv, Some (x2, y2)) =
     (if x1 = x2 \<and> (y1 + y2) mod p = 0 then ((p, a, b), None)
      else
        (let l = (if x1 = x2 then (3 * x1 * x1 + a) * toy_inverse p (2 * y1)
                  else (y2 - y1) * toy_inverse p (x2 - x1)) mod p;
             x3 = (l * l - x1 - x2) mod p
         in ((p, a, b), Some (x3, (l * (x1 - x3) - y1) mod p))))"

fun toy_times :: "nat \<Rightarrow> toy_point \<Rightarrow> toy_point" where
  "toy_times 0 P = (fst P, None)"
| "toy_times (Suc n) P = toy_add P (toy_times n P)"

fun toy_negate :: "toy_point \<Rightarrow> toy_point" where
  "toy_negate (cv, None) = (cv, None)"
| "toy_negate ((p, a, b), Some (x, y)) = ((p, a, b), Some (x, (- y) mod p))"

definition toy_mult :: "toy_point \<Rightarrow> int \<Rightarrow> toy_point" where
  "toy_mult P k = (if k < 0 then toy_negate (toy_times (nat (- k)) P) else toy_times (nat k) P)"

fun toy_check_invariants :: "toy_point \<Rightarrow> error option" where
  "toy_check_invariants (cv, None) = None"
| "toy_check_invariants ((p, a, b), Some (x, y)) =
     (if (y * y) mod p = (x * x * x + a * x + b) mod p then None
      else Some (Illegal_Point ''Invalid ECP point: y^2 not equal to x^3 + a*x + b''))"

fun toy_OS2ECP :: "byte list \<Rightarrow> toy_curve \<Rightarrow> error + toy_point" where
  "toy_OS2ECP [t, x, y] cv =
     (if t = 4 then Inr (cv, Some (uint x, uint y))
      else Inl (Decoding_Error ''OS2ECP: Unknown format type''))"
| "toy_OS2ECP bits cv = Inl (Decoding_Error ''OS2ECP: Unknown format type'')"

fun toy_decode_domain_params ::
  "byte list \<Rightarrow> error + (toy_curve, toy_point) EC_Domain_Params" where
  "toy_decode_domain_params [p, a, b, gx, gy, n, h] =
     Inr \<lparr>get_curve = (uint p, uint a, uint b),
          get_base_point = ((uint p, uint a, uint b), Some (uint gx, uint gy)),
          get_order = uint n, get_cofactor = uint h, get_oid = []\<rparr>"
| "toy_decode_domain_params bits = Inl (Decoding_Error ''Unknown curve parameters'')"

definition toy_random_integer :: "int \<Rightarrow> int \<Rightarrow> int \<Rightarrow> error + int" where
  "toy_random_integer rng lo hi =
     (if hi \<le> lo then Inl (Invalid_Argument ''random_integer: invalid min/max values'')
      else Inr (lo + rng mod (hi - lo)))"

definition toy_DER_encode_key :: "int \<Rightarrow> byte list \<Rightarrow> byte list" where
  "toy_DER_encode_key v octets =
     [0x30, of_nat (5 + length octets), 0x02, 0x01, of_int v, 0x04, of_nat (length octets)]
       @ octets"

fun toy_BER_decode_key :: "byte list \<Rightarrow> error + (32 word \<times> byte list)" where
  "toy_BER_decode_key (t # l # ti # li # v # to # lo # octets) =
     (if t = 0x30 \<and> unat l = 5 + length octets \<and> ti = 0x02 \<and> li = 0x01 \<and> to = 0x04
         \<and> unat lo = length octets
      then Inr (ucast v, octets)
      else Inl (Decoding_Error ''BER: Tag mismatch when decoding''))"
| "toy_BER_decode_key bits = Inl (Decoding_Error ''BER: Tag mismatch when decoding'')"

definition toy_ecc :: "(toy_curve, toy_point, int) ecc_env" where
  "toy_ecc =
     \<lparr>mult = toy_mult, check_invariants = toy_check_invariants, OS2ECP = toy_OS2ECP,
      decode_domain_params = toy_decode_domain_params, random_integer = toy_random_integer,
      DER_encode_key = toy_DER_encode_key, BER_decode_key = toy_BER_decode_key\<rparr>"

definition toy_domain :: "(toy_curve, toy_point) EC_Domain_Params" where
  "toy_domain =
     \<lparr>get_curve = (17, 2, 2), get_base_point = ((17, 2, 2), Some (5, 1)),
      get_order = 19, get_cofactor = 1, get_oid = []\<rparr>"

definition bad_domain :: "(toy_curve, toy_point) EC_Domain_Params" where
  "bad_domain =
     \<lparr>get_curve = (17, 2, 2), get_base_point = ((17, 2, 2), Some (5, 2)),
      get_order = 19, get_cofactor = 1, get_oid = []\<rparr>"


definition toy_alg_id :: AlgorithmIdentifier where
  "toy_alg_id = \<lparr>oid = ''1.2.840.10045.2.1'', parameters = [17, 2, 2, 5, 1, 19, 1]\<rparr>"

definition bad_alg_id :: AlgorithmIdentifier where
  "bad_alg_id = \<lparr>oid = ''1.2.840.10045.2.1'', parameters = [17, 2, 2, 5, 2, 19, 1]\<rparr>"

text \<open>
  Key exchange: groups by their TLS code points, a finite-field group of modulus 23,
  curve groups by name, a policy that accepts every key.
\<close>

definition toy_group_name :: "nat \<Rightarrow> string" where
  "toy_group_name g =
     (if g = 23 then ''secp256r1'' else if g = 29 then ''x25519''
      else if g = 256 then ''ffdhe/ietf/2048'' else [])"

definition toy_DL_Group_by_name :: "string \<Rightarrow> error + DL_Group" where
  "toy_DL_Group_by_name name =
     (if name = ''ffdhe/ietf/2048'' then Inr \<lparr>get_p = 23, get_g = 5, get_q = 11\<rparr>
      else Inl (Invalid_Argument ''DL_Group: Unknown group''))"

fun toy_public_value :: "(string, int \<times> int) PK_Public_Key \<Rightarrow> byte list" where
  "toy_public_value (DH_PublicKey dl y) = big_endian (nat y)"
| "toy_public_value (ECDH_PublicKey ec (x, y)) = [4, of_int x, of_int y]"
| "toy_public_value (Curve25519_PublicKey bits) = bits"

fun toy_derive_key :: "string PK_Key_Agreement_Key \<Rightarrow> nat \<Rightarrow> byte list \<Rightarrow> error + byte list" where
  "toy_derive_key (DH_PrivateKey dl x) rng v =
     Inr (big_endian (nat (BigInt_decode v ^ nat x mod get_p dl)))"
| "toy_derive_key sk rng v = Inr v"

fun toy_EC_Group_OS2ECP :: "string \<Rightarrow> byte list \<Rightarrow> error + int \<times> int" where
  "toy_EC_Group_OS2ECP ec [t, x, y] =
     (if t = 4 then Inr (uint x, uint y)
      else Inl (Decoding_Error ''OS2ECP: Unknown format type''))"
| "toy_EC_Group_OS2ECP ec bits = Inl (Decoding_Error ''OS2ECP: Unknown format type'')"

definition toy_kex :: "(nat, string, int \<times> int, nat) kex_env" where
  "toy_kex =
     \<lparr>is_dh = (\<lambda>g. 256 \<le> g \<and> g \<le> 260),
      is_ecdh = (\<lambda>g. 23 \<le> g \<and> g \<le> 28),
      is_x25519 = (\<lambda>g. g = 29),
      group_param_to_string = toy_group_name,
      BOTAN_HAS_CURVE_25519 = True,
      DL_Group_by_name = toy_DL_Group_by_name,
      EC_Group_by_name = Inr,
      EC_Group_OS2ECP = toy_EC_Group_OS2ECP,
      DH_generate = (\<lambda>rng dl. Inr (2 + int rng mod (get_p dl - 3))),
      ECDH_generate = (\<lambda>rng ec. Inr (1 + int rng)),
      X25519_generate = (\<lambda>rng. Inr (replicate 32 (of_nat rng))),
      public_value = toy_public_value,
      derive_key = toy_derive_key\<rparr>"

definition toy_policy :: "(string, int \<times> int) Policy" where
  "toy_policy =
     \<lparr>require_cert_revocation_info = False, minimum_signature_strength = 110,
      check_peer_key_acceptable = (\<lambda>pk. Inr ())\<rparr>"

definition toy_dl_group :: DL_Group where
  "toy_dl_group = \<lparr>get_p = 23, get_g = 5, get_q = 11\<rparr>"

text \<open>
  Certificates as (subject, issuer) pairs and trust stores as issuer names: path
  validation succeeds when the last issuer is trusted and the leaf's subject is the host
  name, if one is given.
\<close>

definition toy_x509_path_validate ::
  "(string \<times> string) list \<Rightarrow> Path_Validation_Restrictions \<Rightarrow> string list \<Rightarrow> string
     \<Rightarrow> Usage_Type \<Rightarrow> nat \<Rightarrow> nat \<Rightarrow> string option list
     \<Rightarrow> error + Path_Validation_Result" where
  "toy_x509_path_validate chain restrictions roots host usage now timeout ocsp =
     (if snd (last chain) \<notin> set roots then
        Inr \<lparr>successful_validation = False,
             result_string = ''Certificate issuer not found''\<rparr>
      else if host \<noteq> [] \<and> fst (hd chain) \<noteq> host then
        Inr \<lparr>successful_validation = False,
             result_string = ''Certificate does not match provided name''\<rparr>
      else Inr \<lparr>successful_validation = True, result_string = ''Verified''\<rparr>)"

fun toy_OCSP_Response :: "byte list \<Rightarrow> error + string" where
  "toy_OCSP_Response (t # bits) =
     (if t = 0x30 then Inr ''successful''
      else Inl (Decoding_Error ''BER: Tag mismatch when decoding''))"
| "toy_OCSP_Response [] = Inl (Decoding_Error ''BER: Ran out of data'')"

definition toy_cert :: "(string \<times> string, string, string) cert_env" where
  "toy_cert =
     \<lparr>tls_current_timestamp = 1700000000, tls_verify_cert_chain_ocsp_timeout = 0,
      x509_path_validate = toy_x509_path_validate, OCSP_Response = toy_OCSP_Response,
      restrictions_arg_order = Right_to_left, path_validate_arg_order = Right_to_left\<rparr>"



section \<open>Properties\<close>

subsection \<open>Session retention\<close>

text \<open>
  C9. A session is retained (\<open>True\<close>) or discarded (\<open>False\<close>). A positive hint is
  retained whatever the version, and an older version with hint zero is retained. The
  hint is the ticket lifetime of RFC 5077 3.3 and RFC 8446 4.6.1, which the source
  quotes: a number of seconds that is not negative. For such a session the decision is
  discard exactly when the version is not older than TLS 1.3 and the hint is zero.
\<close>

theorem should_persist_resumption_information:
  "(0 \<le> lifetime_hint session \<longrightarrow>
      (\<not> tls_should_persist_resumption_information is_pre_tls_13 session \<longleftrightarrow>
         \<not> is_pre_tls_13 (version session) \<and> lifetime_hint session = 0))
   \<and> (is_pre_tls_13 (version session) \<and> lifetime_hint session = 0 \<longrightarrow>
         tls_should_persist_resumption_information is_pre_tls_13 session)
   \<and> (0 < lifetime_hint session \<longrightarrow>
         tls_should_persist_resumption_information is_pre_tls_13 session)"
  by (auto simp: tls_should_persist_resumption_information_def)

text \<open>
  Versions as (major, minor) pairs, TLS 1.2 being 3.3 and TLS 1.3 being 3.4: a TLS 1.3
  session with hint zero is discarded, a TLS 1.2 session with hint zero and a TLS 1.3
  session with a hint of two hours are retained.
\<close>

theorem should_persist_resumption_information_witness:
  "\<not> tls_should_persist_resumption_information (\<lambda>(major, minor). major = 3 \<and> minor \<le> 3)
        \<lparr>lifetime_hint = 0, version = (3::nat, 4::nat)\<rparr>
   \<and> tls_should_persist_resumption_information (\<lambda>(major, minor). major = 3 \<and> minor \<le> 3)
        \<lparr>lifetime_hint = 0, version = (3::nat, 3::nat)\<rparr>
   \<and> tls_should_persist_resumption_information (\<lambda>(major, minor). major = 3 \<and> minor \<le> 3)
        \<lparr>lifetime_hint = 7200, version = (3::nat, 4::nat)\<rparr>"
  using
    should_persist_resumption_information
      [of "\<lparr>lifetime_hint = 0, version = (3::nat, 4::nat)\<rparr>"
          "\<lambda>(major, minor). major = 3 \<and> minor \<le> 3"]
    should_persist_resumption_information
      [of "\<lparr>lifetime_hint = 0, version = (3::nat, 3::nat)\<rparr>"
          "\<lambda>(major, minor). major = 3 \<and> minor \<le> 3"]
    should_persist_resumption_information
      [of "\<lparr>lifetime_hint = 7200, version = (3::nat, 4::nat)\<rparr>"
          "\<lambda>(major, minor). major = 3 \<and> minor \<le> 3"]
  by simp

text \<open>
  The count of the hint is signed. A negative count is not positive, so under a version
  that is not older than TLS 1.3 it is discarded as the zero hint is.
\<close>

lemma negative_hint_discarded:
  "lifetime_hint session < 0 \<Longrightarrow> \<not> is_pre_tls_13 (version session) \<Longrightarrow>
     \<not> tls_should_persist_resumption_information is_pre_tls_13 session"
  by (simp add: tls_should_persist_resumption_information_def)

subsection \<open>Traced computations and big-endian numbers\<close>

lemma seq_pair:
  "seq (t, r) f = (case r of Inl e \<Rightarrow> (t, Inl e) | Inr x \<Rightarrow> (t @ fst (f x), snd (f x)))"
  by (simp add: seq_def split: sum.splits prod.splits)

lemmas comp_simps = seq_pair call_def throw_def ret_def untraced_def

lemma BigInt_decode_snoc: "BigInt_decode (buf @ [b]) = BigInt_decode buf * 256 + uint b"
  by (simp add: BigInt_decode_def)

lemma BigInt_decode_single: "BigInt_decode [b] = uint b"
  by (simp add: BigInt_decode_def)

lemma BigInt_decode_nonneg: "0 \<le> BigInt_decode buf"
  by (induction buf rule: rev_induct) (simp_all add: BigInt_decode_snoc BigInt_decode_def)

subsection \<open>Key agreement: the finite-field range check\<close>

text \<open>
  What \<open>tls_ephemeral_key_agreement\<close> does for a finite-field group whose parameters
  are found: the range check on the decoded value, then the policy check on the key built
  from it, then the agreement.
\<close>

lemma dh_branch:
  assumes "is_dh_group c grp" and "get_dl_group c grp = Inr dl_group"
  shows "tls_ephemeral_key_agreement c grp own_key pub_value rng policy =
     (let Y = BigInt_decode pub_value; peer_key = DH_PublicKey dl_group Y in
      if Y \<le> 1 \<or> Y \<ge> get_p dl_group - 1 then
        ([], Inl (TLS_Exception IllegalParameter ''Server sent bad DH key for DHE exchange''))
      else
        (case check_peer_key_acceptable policy peer_key of
           Inl e \<Rightarrow> ([Policy_check peer_key], Inl e)
         | Inr u \<Rightarrow>
             ([Policy_check peer_key, Key_agreement own_key peer_key],
              derive_key c own_key rng (public_value c peer_key))))"
  using assms
  by (simp add: tls_ephemeral_key_agreement_def comp_simps agree_def Let_def
        split: sum.splits)

lemma get_dl_group_explicit: "get_dl_group c (Holds_DL_Group dl_group) = Inr dl_group"
  by (simp add: get_dl_group_def is_dh_group_def)

text \<open>
  C1. For a finite-field group (one that \<open>is_dh_group\<close> accepts and whose parameters
  \<open>get_dl_group\<close> finds; explicit parameters are always found), let \<open>Y\<close> be the peer's
  bytes read as a big-endian integer. If \<open>Y \<le> 1\<close> or \<open>Y \<ge> p - 1\<close> the operation ends
  with the illegal-parameter alert and an empty trace: no policy check and no agreement
  was made. Otherwise the trace is not empty and starts with the policy check of the key
  built from \<open>Y\<close>. So the operation ends that way exactly when \<open>Y\<close> is out of range.
\<close>

theorem dh_peer_value_range_check:
  assumes "is_dh_group c grp" and "get_dl_group c grp = Inr dl_group"
  shows "(BigInt_decode pub_value \<le> 1 \<or> BigInt_decode pub_value \<ge> get_p dl_group - 1 \<longrightarrow>
            tls_ephemeral_key_agreement c grp own_key pub_value rng policy =
              ([], Inl (TLS_Exception IllegalParameter
                          ''Server sent bad DH key for DHE exchange'')))
       \<and> (\<not> (BigInt_decode pub_value \<le> 1 \<or> BigInt_decode pub_value \<ge> get_p dl_group - 1) \<longrightarrow>
            fst (tls_ephemeral_key_agreement c grp own_key pub_value rng policy) \<noteq> []
            \<and> hd (fst (tls_ephemeral_key_agreement c grp own_key pub_value rng policy)) =
                Policy_check (DH_PublicKey dl_group (BigInt_decode pub_value)))
       \<and> (tls_ephemeral_key_agreement c grp own_key pub_value rng policy =
              ([], Inl (TLS_Exception IllegalParameter
                          ''Server sent bad DH key for DHE exchange''))
            \<longleftrightarrow> BigInt_decode pub_value \<le> 1 \<or> BigInt_decode pub_value \<ge> get_p dl_group - 1)"
  by (simp add: dh_branch [OF assms] Let_def split: sum.splits)

text \<open>
  With the explicit group of modulus 23, the peer values 0, 1, 22 (the modulus minus 1)
  and 23 (the modulus) are rejected before any policy check, and 8 is not.
\<close>

lemma toy_is_dh_group: "is_dh_group toy_kex (Holds_DL_Group toy_dl_group)"
  by (simp add: is_dh_group_def)

theorem dh_peer_value_range_check_witness:
  "is_dh_group toy_kex (Holds_DL_Group toy_dl_group)
   \<and> get_dl_group toy_kex (Holds_DL_Group toy_dl_group) = Inr toy_dl_group
   \<and> tls_ephemeral_key_agreement toy_kex (Holds_DL_Group toy_dl_group)
         (DH_PrivateKey toy_dl_group 6) [0] (0::nat) toy_policy
       = ([], Inl (TLS_Exception IllegalParameter ''Server sent bad DH key for DHE exchange''))
   \<and> tls_ephemeral_key_agreement toy_kex (Holds_DL_Group toy_dl_group)
         (DH_PrivateKey toy_dl_group 6) [1] (0::nat) toy_policy
       = ([], Inl (TLS_Exception IllegalParameter ''Server sent bad DH key for DHE exchange''))
   \<and> tls_ephemeral_key_agreement toy_kex (Holds_DL_Group toy_dl_group)
         (DH_PrivateKey toy_dl_group 6) [22] (0::nat) toy_policy
       = ([], Inl (TLS_Exception IllegalParameter ''Server sent bad DH key for DHE exchange''))
   \<and> tls_ephemeral_key_agreement toy_kex (Holds_DL_Group toy_dl_group)
         (DH_PrivateKey toy_dl_group 6) [23] (0::nat) toy_policy
       = ([], Inl (TLS_Exception IllegalParameter ''Server sent bad DH key for DHE exchange''))
   \<and> tls_ephemeral_key_agreement toy_kex (Holds_DL_Group toy_dl_group)
         (DH_PrivateKey toy_dl_group 6) [8] (0::nat) toy_policy
       \<noteq> ([], Inl (TLS_Exception IllegalParameter ''Server sent bad DH key for DHE exchange''))
   \<and> hd (fst (tls_ephemeral_key_agreement toy_kex (Holds_DL_Group toy_dl_group)
                 (DH_PrivateKey toy_dl_group 6) [8] (0::nat) toy_policy))
       = Policy_check (DH_PublicKey toy_dl_group 8)"
proof -
  note range = dh_peer_value_range_check [OF toy_is_dh_group get_dl_group_explicit]
  have p: "get_p toy_dl_group = 23"
    by (simp add: toy_dl_group_def)
  show ?thesis
    using range [of "[0]"] range [of "[1]"] range [of "[22]"] range [of "[23]"]
      range [of "[8]"]
    by (simp add: toy_is_dh_group get_dl_group_explicit BigInt_decode_single p)
qed

subsection \<open>Key agreement: the fixed-curve length check\<close>

text \<open>
  C4. On the X25519 path (the branch is compiled in, and the identifier is an X25519
  one and neither a finite-field nor an elliptic-curve one), a peer value whose length is
  not 32 ends the operation with the handshake-failure alert and an empty trace. A peer
  value of 32 bytes, whatever they are, becomes the peer key as it is; the policy check
  of that key is the first call, the agreement with it the second if the policy accepts,
  and no point is decoded or validated in between.
\<close>

theorem x25519_peer_value_length_check:
  assumes "\<not> is_dh c gp" and "\<not> is_ecdh c gp" and "is_x25519 c gp"
    and "BOTAN_HAS_CURVE_25519 c"
  shows "(length pub_value \<noteq> 32 \<longrightarrow>
            tls_ephemeral_key_agreement c (Holds_Group_Params gp) own_key pub_value rng policy
              = ([], Inl (TLS_Exception HandshakeFailure ''Invalid X25519 key size'')))
       \<and> (length pub_value = 32 \<longrightarrow>
            tls_ephemeral_key_agreement c (Holds_Group_Params gp) own_key pub_value rng policy
              = (case check_peer_key_acceptable policy (Curve25519_PublicKey pub_value) of
                   Inl e \<Rightarrow> ([Policy_check (Curve25519_PublicKey pub_value)], Inl e)
                 | Inr u \<Rightarrow>
                     ([Policy_check (Curve25519_PublicKey pub_value),
                       Key_agreement own_key (Curve25519_PublicKey pub_value)],
                      derive_key c own_key rng
                        (public_value c (Curve25519_PublicKey pub_value)))))"
  using assms
  by (simp add: tls_ephemeral_key_agreement_def is_dh_group_def comp_simps agree_def
        Let_def split: sum.splits)

text \<open>
  With group 29 (X25519): 31 bytes are rejected; the 32 zero bytes, which encode a point
  of small order, pass the policy and reach the agreement.
\<close>

theorem x25519_peer_value_length_check_witness:
  "\<not> is_dh toy_kex 29 \<and> \<not> is_ecdh toy_kex 29 \<and> is_x25519 toy_kex 29
   \<and> BOTAN_HAS_CURVE_25519 toy_kex
   \<and> tls_ephemeral_key_agreement toy_kex (Holds_Group_Params 29)
         (X25519_PrivateKey (replicate 32 7)) (replicate 31 9) (0::nat) toy_policy
       = ([], Inl (TLS_Exception HandshakeFailure ''Invalid X25519 key size''))
   \<and> tls_ephemeral_key_agreement toy_kex (Holds_Group_Params 29)
         (X25519_PrivateKey (replicate 32 7)) (replicate 32 0) (0::nat) toy_policy
       = ([Policy_check (Curve25519_PublicKey (replicate 32 0)),
           Key_agreement (X25519_PrivateKey (replicate 32 7))
             (Curve25519_PublicKey (replicate 32 0))],
          Inr (replicate 32 0))"
proof -
  have h: "\<not> is_dh toy_kex 29" "\<not> is_ecdh toy_kex 29" "is_x25519 toy_kex 29"
    "BOTAN_HAS_CURVE_25519 toy_kex"
    by (simp_all add: toy_kex_def)
  have policy: "check_peer_key_acceptable toy_policy pk = Inr ()" for pk
    by (simp add: toy_policy_def)
  have agreement:
    "derive_key toy_kex (X25519_PrivateKey sk) rng (public_value toy_kex (Curve25519_PublicKey v))
       = Inr v" for sk rng v
    by (simp add: toy_kex_def)
  show ?thesis
    using x25519_peer_value_length_check [OF h, of "replicate 31 9"]
      x25519_peer_value_length_check [OF h, of "replicate 32 0"]
    by (simp add: h policy agreement)
qed

subsection \<open>Key agreement: one classification for both operations\<close>

lemma generate_DH_iff:
  "tls_generate_ephemeral_key c grp rng = Inr k \<Longrightarrow>
     (\<exists>dl x. k = DH_PrivateKey dl x) \<longleftrightarrow> is_dh_group c grp"
  by (auto simp: tls_generate_ephemeral_key_def and_then_def
        split: if_splits sum.splits group_variant.splits)

lemma generate_DH_group:
  "tls_generate_ephemeral_key c grp rng = Inr (DH_PrivateKey dl x) \<Longrightarrow>
     get_dl_group c grp = Inr dl"
  by (auto simp: tls_generate_ephemeral_key_def and_then_def
        split: if_splits sum.splits group_variant.splits)

lemma agreement_events_dh:
  assumes "is_dh_group c grp"
    and "ev \<in> set (fst (tls_ephemeral_key_agreement c grp own_key pub_value rng policy))"
  shows "\<exists>dl. get_dl_group c grp = Inr dl \<and>
          (ev = Policy_check (DH_PublicKey dl (BigInt_decode pub_value))
           \<or> ev = Key_agreement own_key (DH_PublicKey dl (BigInt_decode pub_value)))"
proof (cases "get_dl_group c grp")
  case (Inl e)
  with assms show ?thesis
    by (simp add: tls_ephemeral_key_agreement_def comp_simps)
next
  case (Inr dl)
  with assms show ?thesis
    by (auto simp: dh_branch [OF assms(1) Inr] Let_def split: if_splits sum.splits)
qed

lemma agreement_events_not_dh:
  assumes "\<not> is_dh_group c grp"
  shows "Policy_check (DH_PublicKey dl y)
           \<notin> set (fst (tls_ephemeral_key_agreement c grp own_key pub_value rng policy))"
    and "Key_agreement sk (DH_PublicKey dl y)
           \<notin> set (fst (tls_ephemeral_key_agreement c grp own_key pub_value rng policy))"
  using assms
  by (auto simp: tls_ephemeral_key_agreement_def comp_simps agree_def Let_def
        split: if_splits sum.splits group_variant.splits)

text \<open>
  The four paths of the two operations, each with the whole result. \<open>accepted pk\<close> below
  is what both the curve paths and the finite-field path end with: the policy check of
  the peer key, then the agreement with it.
\<close>

lemma policy_then_agree:
  "seq (call (Policy_check pk) r) (\<lambda>u. agree c rng own_key pk) =
     (case r of
        Inl e \<Rightarrow> ([Policy_check pk], Inl e)
      | Inr u \<Rightarrow>
          ([Policy_check pk, Key_agreement own_key pk],
           derive_key c own_key rng (public_value c pk)))"
  by (simp add: comp_simps agree_def split: sum.splits)

lemma generate_dh:
  assumes "is_dh_group c grp"
  shows "tls_generate_ephemeral_key c grp rng =
     (case get_dl_group c grp of
        Inl e \<Rightarrow> Inl e
      | Inr dl \<Rightarrow>
          (case DH_generate c rng dl of
             Inl e \<Rightarrow> Inl e
           | Inr x \<Rightarrow> Inr (DH_PrivateKey dl x)))"
  using assms
  by (simp add: tls_generate_ephemeral_key_def and_then_def split: sum.splits)

lemma agreement_dh:
  assumes "is_dh_group c grp"
  shows "tls_ephemeral_key_agreement c grp own_key pub_value rng policy =
     (case get_dl_group c grp of
        Inl e \<Rightarrow> ([], Inl e)
      | Inr dl \<Rightarrow>
          if BigInt_decode pub_value \<le> 1 \<or> BigInt_decode pub_value \<ge> get_p dl - 1 then
            ([], Inl (TLS_Exception IllegalParameter
                        ''Server sent bad DH key for DHE exchange''))
          else
            (case check_peer_key_acceptable policy
                    (DH_PublicKey dl (BigInt_decode pub_value)) of
               Inl e \<Rightarrow> ([Policy_check (DH_PublicKey dl (BigInt_decode pub_value))], Inl e)
             | Inr u \<Rightarrow>
                 ([Policy_check (DH_PublicKey dl (BigInt_decode pub_value)),
                   Key_agreement own_key (DH_PublicKey dl (BigInt_decode pub_value))],
                  derive_key c own_key rng
                    (public_value c (DH_PublicKey dl (BigInt_decode pub_value))))))"
proof (cases "get_dl_group c grp")
  case (Inl e)
  with assms show ?thesis
    by (simp add: tls_ephemeral_key_agreement_def comp_simps)
next
  case (Inr dl)
  then show ?thesis
    by (simp add: dh_branch [OF assms Inr] Let_def)
qed

lemma generate_ecdh:
  assumes "\<not> is_dh c gp" and "is_ecdh c gp"
  shows "tls_generate_ephemeral_key c (Holds_Group_Params gp) rng =
     (case EC_Group_by_name c (group_param_to_string c gp) of
        Inl e \<Rightarrow> Inl e
      | Inr ec \<Rightarrow>
          (case ECDH_generate c rng ec of
             Inl e \<Rightarrow> Inl e
           | Inr x \<Rightarrow> Inr (ECDH_PrivateKey ec x)))"
  using assms
  by (simp add: tls_generate_ephemeral_key_def is_dh_group_def and_then_def
        split: sum.splits)

lemma agreement_ecdh:
  assumes "\<not> is_dh c gp" and "is_ecdh c gp"
  shows "tls_ephemeral_key_agreement c (Holds_Group_Params gp) own_key pub_value rng policy =
     (case EC_Group_by_name c (group_param_to_string c gp) of
        Inl e \<Rightarrow> ([], Inl e)
      | Inr ec \<Rightarrow>
          (case EC_Group_OS2ECP c ec pub_value of
             Inl e \<Rightarrow> ([Point_decode ec pub_value], Inl e)
           | Inr point \<Rightarrow>
               (case check_peer_key_acceptable policy (ECDH_PublicKey ec point) of
                  Inl e \<Rightarrow>
                    ([Point_decode ec pub_value, Policy_check (ECDH_PublicKey ec point)],
                     Inl e)
                | Inr u \<Rightarrow>
                    ([Point_decode ec pub_value, Policy_check (ECDH_PublicKey ec point),
                      Key_agreement own_key (ECDH_PublicKey ec point)],
                     derive_key c own_key rng (public_value c (ECDH_PublicKey ec point))))))"
  using assms
  by (simp add: tls_ephemeral_key_agreement_def is_dh_group_def comp_simps agree_def
        Let_def split: sum.splits)

lemma generate_x25519:
  assumes "\<not> is_dh c gp" and "\<not> is_ecdh c gp" and "BOTAN_HAS_CURVE_25519 c"
    and "is_x25519 c gp"
  shows "tls_generate_ephemeral_key c (Holds_Group_Params gp) rng =
     (case X25519_generate c rng of
        Inl e \<Rightarrow> Inl e
      | Inr x \<Rightarrow> Inr (X25519_PrivateKey x))"
  using assms
  by (simp add: tls_generate_ephemeral_key_def is_dh_group_def and_then_def
        split: sum.splits)

lemma agreement_x25519:
  assumes "\<not> is_dh c gp" and "\<not> is_ecdh c gp" and "BOTAN_HAS_CURVE_25519 c"
    and "is_x25519 c gp"
  shows "tls_ephemeral_key_agreement c (Holds_Group_Params gp) own_key pub_value rng policy =
     (if length pub_value \<noteq> 32 then
        ([], Inl (TLS_Exception HandshakeFailure ''Invalid X25519 key size''))
      else
        (case check_peer_key_acceptable policy (Curve25519_PublicKey pub_value) of
           Inl e \<Rightarrow> ([Policy_check (Curve25519_PublicKey pub_value)], Inl e)
         | Inr u \<Rightarrow>
             ([Policy_check (Curve25519_PublicKey pub_value),
               Key_agreement own_key (Curve25519_PublicKey pub_value)],
              derive_key c own_key rng (public_value c (Curve25519_PublicKey pub_value)))))"
  using assms
  by (simp add: tls_ephemeral_key_agreement_def is_dh_group_def comp_simps agree_def
        Let_def split: sum.splits)

lemma no_path:
  assumes "\<not> is_dh c gp" and "\<not> is_ecdh c gp"
    and "\<not> (BOTAN_HAS_CURVE_25519 c \<and> is_x25519 c gp)"
  shows "tls_generate_ephemeral_key c (Holds_Group_Params gp) rng =
           Inl (TLS_Exception DecodeError
                  ''cannot create a key offering without a group definition'')"
    and "tls_ephemeral_key_agreement c (Holds_Group_Params gp) own_key pub_value rng' policy =
           ([], Inl (TLS_Exception IllegalParameter
                       ''Did not recognize the key exchange group''))"
  using assms
  by (auto simp: tls_generate_ephemeral_key_def tls_ephemeral_key_agreement_def
        is_dh_group_def comp_simps)

text \<open>
  C5. \<open>is_dh_group\<close> holds exactly when the specification carries explicit finite-field
  parameters or its identifier is a finite-field one, and explicit parameters are the
  group that both operations then use. Whenever \<open>is_dh_group\<close> holds, both operations
  take the finite-field path: generation draws a finite-field key over the group, and
  agreement range-checks the peer value against the same group before the policy check
  and the agreement. Whenever it fails, the specification holds an identifier and both
  operations go on in the same order: the curve path if the identifier is a curve one,
  else the X25519 path if that is compiled in and the identifier is the X25519 one, else
  both fail. On every path the whole result of both operations is as stated, so a
  generated key and a peer key that reaches the policy or the agreement are always of
  the same kind; in particular each is a finite-field key exactly when \<open>is_dh_group\<close>
  holds, and the two are then over the same group parameters.
\<close>

theorem generate_and_derive_classify_alike:
  "(let generated = tls_generate_ephemeral_key c grp rng;
        agreed = tls_ephemeral_key_agreement c grp own_key pub_value rng' policy;
        accepted = (\<lambda>pk.
          case check_peer_key_acceptable policy pk of
            Inl e \<Rightarrow> ([Policy_check pk], Inl e)
          | Inr u \<Rightarrow>
              ([Policy_check pk, Key_agreement own_key pk],
               derive_key c own_key rng' (public_value c pk)))
    in
      (is_dh_group c grp \<longleftrightarrow>
         (\<exists>dl. grp = Holds_DL_Group dl) \<or> (\<exists>gp. grp = Holds_Group_Params gp \<and> is_dh c gp))
      \<and> (\<forall>dl. grp = Holds_DL_Group dl \<longrightarrow> get_dl_group c grp = Inr dl)
      \<and> (is_dh_group c grp \<longrightarrow>
            generated =
              (case get_dl_group c grp of
                 Inl e \<Rightarrow> Inl e
               | Inr dl \<Rightarrow>
                   (case DH_generate c rng dl of
                      Inl e \<Rightarrow> Inl e
                    | Inr x \<Rightarrow> Inr (DH_PrivateKey dl x)))
            \<and> agreed =
              (case get_dl_group c grp of
                 Inl e \<Rightarrow> ([], Inl e)
               | Inr dl \<Rightarrow>
                   if BigInt_decode pub_value \<le> 1
                      \<or> BigInt_decode pub_value \<ge> get_p dl - 1
                   then ([], Inl (TLS_Exception IllegalParameter
                                   ''Server sent bad DH key for DHE exchange''))
                   else accepted (DH_PublicKey dl (BigInt_decode pub_value))))
      \<and> (\<forall>gp. grp = Holds_Group_Params gp \<and> \<not> is_dh c gp \<and> is_ecdh c gp \<longrightarrow>
            generated =
              (case EC_Group_by_name c (group_param_to_string c gp) of
                 Inl e \<Rightarrow> Inl e
               | Inr ec \<Rightarrow>
                   (case ECDH_generate c rng ec of
                      Inl e \<Rightarrow> Inl e
                    | Inr x \<Rightarrow> Inr (ECDH_PrivateKey ec x)))
            \<and> agreed =
              (case EC_Group_by_name c (group_param_to_string c gp) of
                 Inl e \<Rightarrow> ([], Inl e)
               | Inr ec \<Rightarrow>
                   (case EC_Group_OS2ECP c ec pub_value of
                      Inl e \<Rightarrow> ([Point_decode ec pub_value], Inl e)
                    | Inr point \<Rightarrow>
                        (Point_decode ec pub_value # fst (accepted (ECDH_PublicKey ec point)),
                         snd (accepted (ECDH_PublicKey ec point))))))
      \<and> (\<forall>gp. grp = Holds_Group_Params gp \<and> \<not> is_dh c gp \<and> \<not> is_ecdh c gp
               \<and> BOTAN_HAS_CURVE_25519 c \<and> is_x25519 c gp \<longrightarrow>
            generated =
              (case X25519_generate c rng of
                 Inl e \<Rightarrow> Inl e
               | Inr x \<Rightarrow> Inr (X25519_PrivateKey x))
            \<and> agreed =
              (if length pub_value \<noteq> 32
               then ([], Inl (TLS_Exception HandshakeFailure ''Invalid X25519 key size''))
               else accepted (Curve25519_PublicKey pub_value)))
      \<and> (\<forall>gp. grp = Holds_Group_Params gp \<and> \<not> is_dh c gp \<and> \<not> is_ecdh c gp
               \<and> \<not> (BOTAN_HAS_CURVE_25519 c \<and> is_x25519 c gp) \<longrightarrow>
            generated =
              Inl (TLS_Exception DecodeError
                     ''cannot create a key offering without a group definition'')
            \<and> agreed =
              ([], Inl (TLS_Exception IllegalParameter
                          ''Did not recognize the key exchange group'')))
      \<and> (\<forall>k. generated = Inr k \<longrightarrow>
            ((\<exists>dl x. k = DH_PrivateKey dl x) \<longleftrightarrow> is_dh_group c grp))
      \<and> (\<forall>pk sk.
            Policy_check pk \<in> set (fst agreed) \<or> Key_agreement sk pk \<in> set (fst agreed) \<longrightarrow>
            ((\<exists>dl y. pk = DH_PublicKey dl y) \<longleftrightarrow> is_dh_group c grp))
      \<and> (\<forall>dl x dl' y.
            generated = Inr (DH_PrivateKey dl x)
            \<and> Policy_check (DH_PublicKey dl' y) \<in> set (fst agreed) \<longrightarrow>
            dl' = dl))"
  unfolding Let_def
proof (intro conjI allI impI)
  show "is_dh_group c grp \<longleftrightarrow>
      (\<exists>dl. grp = Holds_DL_Group dl) \<or> (\<exists>gp. grp = Holds_Group_Params gp \<and> is_dh c gp)"
    by (cases grp) (simp_all add: is_dh_group_def)
next
  fix dl
  assume "grp = Holds_DL_Group dl"
  then show "get_dl_group c grp = Inr dl"
    by (simp add: get_dl_group_explicit)
next
  assume "is_dh_group c grp"
  then show "tls_generate_ephemeral_key c grp rng =
              (case get_dl_group c grp of
                 Inl e \<Rightarrow> Inl e
               | Inr dl \<Rightarrow>
                   (case DH_generate c rng dl of
                      Inl e \<Rightarrow> Inl e
                    | Inr x \<Rightarrow> Inr (DH_PrivateKey dl x)))"
    by (rule generate_dh)
next
  assume "is_dh_group c grp"
  then show "tls_ephemeral_key_agreement c grp own_key pub_value rng' policy =
              (case get_dl_group c grp of
                 Inl e \<Rightarrow> ([], Inl e)
               | Inr dl \<Rightarrow>
                   if BigInt_decode pub_value \<le> 1
                      \<or> BigInt_decode pub_value \<ge> get_p dl - 1
                   then ([], Inl (TLS_Exception IllegalParameter
                                   ''Server sent bad DH key for DHE exchange''))
                   else
                     (case check_peer_key_acceptable policy
                             (DH_PublicKey dl (BigInt_decode pub_value)) of
                        Inl e \<Rightarrow>
                          ([Policy_check (DH_PublicKey dl (BigInt_decode pub_value))], Inl e)
                      | Inr u \<Rightarrow>
                          ([Policy_check (DH_PublicKey dl (BigInt_decode pub_value)),
                            Key_agreement own_key
                              (DH_PublicKey dl (BigInt_decode pub_value))],
                           derive_key c own_key rng'
                             (public_value c (DH_PublicKey dl (BigInt_decode pub_value))))))"
    by (rule agreement_dh)
next
  fix gp
  assume a: "grp = Holds_Group_Params gp \<and> \<not> is_dh c gp \<and> is_ecdh c gp"
  then have g: "grp = Holds_Group_Params gp" and h: "\<not> is_dh c gp" "is_ecdh c gp"
    by simp_all
  show "tls_generate_ephemeral_key c grp rng =
              (case EC_Group_by_name c (group_param_to_string c gp) of
                 Inl e \<Rightarrow> Inl e
               | Inr ec \<Rightarrow>
                   (case ECDH_generate c rng ec of
                      Inl e \<Rightarrow> Inl e
                    | Inr x \<Rightarrow> Inr (ECDH_PrivateKey ec x)))"
    unfolding g by (rule generate_ecdh [OF h])
next
  fix gp
  assume a: "grp = Holds_Group_Params gp \<and> \<not> is_dh c gp \<and> is_ecdh c gp"
  then have g: "grp = Holds_Group_Params gp" and h: "\<not> is_dh c gp" "is_ecdh c gp"
    by simp_all
  show "tls_ephemeral_key_agreement c grp own_key pub_value rng' policy =
              (case EC_Group_by_name c (group_param_to_string c gp) of
                 Inl e \<Rightarrow> ([], Inl e)
               | Inr ec \<Rightarrow>
                   (case EC_Group_OS2ECP c ec pub_value of
                      Inl e \<Rightarrow> ([Point_decode ec pub_value], Inl e)
                    | Inr point \<Rightarrow>
                        (Point_decode ec pub_value
                           # fst (case check_peer_key_acceptable policy
                                         (ECDH_PublicKey ec point) of
                                    Inl e \<Rightarrow> ([Policy_check (ECDH_PublicKey ec point)], Inl e)
                                  | Inr u \<Rightarrow>
                                      ([Policy_check (ECDH_PublicKey ec point),
                                        Key_agreement own_key (ECDH_PublicKey ec point)],
                                       derive_key c own_key rng'
                                         (public_value c (ECDH_PublicKey ec point)))),
                         snd (case check_peer_key_acceptable policy
                                     (ECDH_PublicKey ec point) of
                                Inl e \<Rightarrow> ([Policy_check (ECDH_PublicKey ec point)], Inl e)
                              | Inr u \<Rightarrow>
                                  ([Policy_check (ECDH_PublicKey ec point),
                                    Key_agreement own_key (ECDH_PublicKey ec point)],
                                   derive_key c own_key rng'
                                     (public_value c (ECDH_PublicKey ec point)))))))"
    unfolding g agreement_ecdh [OF h] by (simp split: sum.splits)
next
  fix gp
  assume a: "grp = Holds_Group_Params gp \<and> \<not> is_dh c gp \<and> \<not> is_ecdh c gp
               \<and> BOTAN_HAS_CURVE_25519 c \<and> is_x25519 c gp"
  then have g: "grp = Holds_Group_Params gp"
    and h: "\<not> is_dh c gp" "\<not> is_ecdh c gp" "BOTAN_HAS_CURVE_25519 c" "is_x25519 c gp"
    by simp_all
  show "tls_generate_ephemeral_key c grp rng =
              (case X25519_generate c rng of
                 Inl e \<Rightarrow> Inl e
               | Inr x \<Rightarrow> Inr (X25519_PrivateKey x))"
    unfolding g by (rule generate_x25519 [OF h])
next
  fix gp
  assume a: "grp = Holds_Group_Params gp \<and> \<not> is_dh c gp \<and> \<not> is_ecdh c gp
               \<and> BOTAN_HAS_CURVE_25519 c \<and> is_x25519 c gp"
  then have g: "grp = Holds_Group_Params gp"
    and h: "\<not> is_dh c gp" "\<not> is_ecdh c gp" "BOTAN_HAS_CURVE_25519 c" "is_x25519 c gp"
    by simp_all
  show "tls_ephemeral_key_agreement c grp own_key pub_value rng' policy =
              (if length pub_value \<noteq> 32
               then ([], Inl (TLS_Exception HandshakeFailure ''Invalid X25519 key size''))
               else
                 (case check_peer_key_acceptable policy (Curve25519_PublicKey pub_value) of
                    Inl e \<Rightarrow> ([Policy_check (Curve25519_PublicKey pub_value)], Inl e)
                  | Inr u \<Rightarrow>
                      ([Policy_check (Curve25519_PublicKey pub_value),
                        Key_agreement own_key (Curve25519_PublicKey pub_value)],
                       derive_key c own_key rng'
                         (public_value c (Curve25519_PublicKey pub_value)))))"
    unfolding g by (rule agreement_x25519 [OF h])
next
  fix gp
  assume a: "grp = Holds_Group_Params gp \<and> \<not> is_dh c gp \<and> \<not> is_ecdh c gp
               \<and> \<not> (BOTAN_HAS_CURVE_25519 c \<and> is_x25519 c gp)"
  then have g: "grp = Holds_Group_Params gp"
    and h: "\<not> is_dh c gp" "\<not> is_ecdh c gp" "\<not> (BOTAN_HAS_CURVE_25519 c \<and> is_x25519 c gp)"
    by simp_all
  show "tls_generate_ephemeral_key c grp rng =
              Inl (TLS_Exception DecodeError
                     ''cannot create a key offering without a group definition'')"
    unfolding g by (rule no_path(1) [OF h])
next
  fix gp
  assume a: "grp = Holds_Group_Params gp \<and> \<not> is_dh c gp \<and> \<not> is_ecdh c gp
               \<and> \<not> (BOTAN_HAS_CURVE_25519 c \<and> is_x25519 c gp)"
  then have g: "grp = Holds_Group_Params gp"
    and h: "\<not> is_dh c gp" "\<not> is_ecdh c gp" "\<not> (BOTAN_HAS_CURVE_25519 c \<and> is_x25519 c gp)"
    by simp_all
  show "tls_ephemeral_key_agreement c grp own_key pub_value rng' policy =
              ([], Inl (TLS_Exception IllegalParameter
                          ''Did not recognize the key exchange group''))"
    unfolding g by (rule no_path(2) [OF h])
next
  fix k
  assume "tls_generate_ephemeral_key c grp rng = Inr k"
  then show "(\<exists>dl x. k = DH_PrivateKey dl x) \<longleftrightarrow> is_dh_group c grp"
    by (rule generate_DH_iff)
next
  fix pk sk
  let ?trace = "fst (tls_ephemeral_key_agreement c grp own_key pub_value rng' policy)"
  assume ev: "Policy_check pk \<in> set ?trace \<or> Key_agreement sk pk \<in> set ?trace"
  show "(\<exists>dl y. pk = DH_PublicKey dl y) \<longleftrightarrow> is_dh_group c grp"
  proof (cases "is_dh_group c grp")
    case True
    from ev have "\<exists>dl y. pk = DH_PublicKey dl y"
    proof
      assume "Policy_check pk \<in> set ?trace"
      from agreement_events_dh [OF True this] show ?thesis by auto
    next
      assume "Key_agreement sk pk \<in> set ?trace"
      from agreement_events_dh [OF True this] show ?thesis by auto
    qed
    with True show ?thesis by simp
  next
    case False
    from ev agreement_events_not_dh [OF False]
    have "\<not> (\<exists>dl y. pk = DH_PublicKey dl y)"
      by blast
    with False show ?thesis by simp
  qed
next
  fix dl x dl' y
  let ?trace = "fst (tls_ephemeral_key_agreement c grp own_key pub_value rng' policy)"
  assume a: "tls_generate_ephemeral_key c grp rng = Inr (DH_PrivateKey dl x)
          \<and> Policy_check (DH_PublicKey dl' y) \<in> set ?trace"
  then have gen: "tls_generate_ephemeral_key c grp rng = Inr (DH_PrivateKey dl x)"
    and ev: "Policy_check (DH_PublicKey dl' y) \<in> set ?trace"
    by simp_all
  from gen have group: "get_dl_group c grp = Inr dl"
    by (rule generate_DH_group)
  from generate_DH_iff [OF gen] have dh: "is_dh_group c grp"
    by simp
  from agreement_events_dh [OF dh ev] group show "dl' = dl"
    by auto
qed

text \<open>
  Explicit parameters of modulus 23 and the finite-field identifier 256, which names the
  same group: \<open>is_dh_group\<close> holds, generation returns a finite-field key over the group,
  and agreement hands a finite-field key over the group to the policy and the agreement.
  Identifier 23 is a curve one: generation returns a curve key, and agreement decodes the
  point and goes on with a curve key. Identifier 29 is the X25519 one: both take the
  X25519 path. Identifier 0 is none of them: both fail.
\<close>

theorem generate_and_derive_classify_alike_witness:
  "is_dh_group toy_kex (Holds_DL_Group toy_dl_group)
   \<and> tls_generate_ephemeral_key toy_kex (Holds_DL_Group toy_dl_group) (5::nat)
       = Inr (DH_PrivateKey toy_dl_group 7)
   \<and> fst (tls_ephemeral_key_agreement toy_kex (Holds_DL_Group toy_dl_group)
            (DH_PrivateKey toy_dl_group 7) [8] (0::nat) toy_policy)
       = [Policy_check (DH_PublicKey toy_dl_group 8),
          Key_agreement (DH_PrivateKey toy_dl_group 7) (DH_PublicKey toy_dl_group 8)]
   \<and> is_dh_group toy_kex (Holds_Group_Params 256)
   \<and> tls_generate_ephemeral_key toy_kex (Holds_Group_Params 256) (5::nat)
       = Inr (DH_PrivateKey toy_dl_group 7)
   \<and> fst (tls_ephemeral_key_agreement toy_kex (Holds_Group_Params 256)
            (DH_PrivateKey toy_dl_group 7) [8] (0::nat) toy_policy)
       = [Policy_check (DH_PublicKey toy_dl_group 8),
          Key_agreement (DH_PrivateKey toy_dl_group 7) (DH_PublicKey toy_dl_group 8)]
   \<and> \<not> is_dh_group toy_kex (Holds_Group_Params 23)
   \<and> tls_generate_ephemeral_key toy_kex (Holds_Group_Params 23) (5::nat)
       = Inr (ECDH_PrivateKey ''secp256r1'' 6)
   \<and> fst (tls_ephemeral_key_agreement toy_kex (Holds_Group_Params 23)
            (ECDH_PrivateKey ''secp256r1'' 6) [4, 5, 1] (0::nat) toy_policy)
       = [Point_decode ''secp256r1'' [4, 5, 1],
          Policy_check (ECDH_PublicKey ''secp256r1'' (5, 1)),
          Key_agreement (ECDH_PrivateKey ''secp256r1'' 6) (ECDH_PublicKey ''secp256r1'' (5, 1))]
   \<and> \<not> is_dh_group toy_kex (Holds_Group_Params 29)
   \<and> tls_generate_ephemeral_key toy_kex (Holds_Group_Params 29) (5::nat)
       = Inr (X25519_PrivateKey (replicate 32 5))
   \<and> fst (tls_ephemeral_key_agreement toy_kex (Holds_Group_Params 29)
            (X25519_PrivateKey (replicate 32 5)) (replicate 32 0) (0::nat) toy_policy)
       = [Policy_check (Curve25519_PublicKey (replicate 32 0)),
          Key_agreement (X25519_PrivateKey (replicate 32 5))
            (Curve25519_PublicKey (replicate 32 0))]
   \<and> tls_generate_ephemeral_key toy_kex (Holds_Group_Params 0) (5::nat)
       = Inl (TLS_Exception DecodeError
                ''cannot create a key offering without a group definition'')
   \<and> tls_ephemeral_key_agreement toy_kex (Holds_Group_Params 0)
         (X25519_PrivateKey (replicate 32 5)) (replicate 32 0) (0::nat) toy_policy
       = ([], Inl (TLS_Exception IllegalParameter
                     ''Did not recognize the key exchange group''))"
proof -
  note paths = generate_and_derive_classify_alike
    [where c = toy_kex and rng = 5 and rng' = 0 and policy = toy_policy, unfolded Let_def]
  have classes:
    "is_dh toy_kex g \<longleftrightarrow> 256 \<le> g \<and> g \<le> 260"
    "is_ecdh toy_kex g \<longleftrightarrow> 23 \<le> g \<and> g \<le> 28"
    "is_x25519 toy_kex g \<longleftrightarrow> g = 29"
    "BOTAN_HAS_CURVE_25519 toy_kex" for g
    by (simp_all add: toy_kex_def)
  have lookups:
    "get_dl_group toy_kex (Holds_Group_Params 256) = Inr toy_dl_group"
    "EC_Group_by_name toy_kex (group_param_to_string toy_kex 23) = Inr ''secp256r1''"
    "EC_Group_OS2ECP toy_kex ''secp256r1'' [4, 5, 1] = Inr (5, 1)"
    by (simp_all add: get_dl_group_def is_dh_group_def toy_kex_def toy_group_name_def
          toy_DL_Group_by_name_def toy_dl_group_def)
  have draws:
    "DH_generate toy_kex 5 toy_dl_group = Inr 7"
    "ECDH_generate toy_kex 5 ''secp256r1'' = Inr 6"
    "X25519_generate toy_kex 5 = Inr (replicate 32 5)"
    by (simp_all add: toy_kex_def toy_dl_group_def)
  have policy: "check_peer_key_acceptable toy_policy pk = Inr ()" for pk
    by (simp add: toy_policy_def)
  have p: "get_p toy_dl_group = 23"
    by (simp add: toy_dl_group_def)
  have explicit:
    "is_dh_group toy_kex (Holds_DL_Group toy_dl_group)"
    "tls_generate_ephemeral_key toy_kex (Holds_DL_Group toy_dl_group) (5::nat)
       = Inr (DH_PrivateKey toy_dl_group 7)"
    "fst (tls_ephemeral_key_agreement toy_kex (Holds_DL_Group toy_dl_group)
            (DH_PrivateKey toy_dl_group 7) [8] (0::nat) toy_policy)
       = [Policy_check (DH_PublicKey toy_dl_group 8),
          Key_agreement (DH_PrivateKey toy_dl_group 7) (DH_PublicKey toy_dl_group 8)]"
    using paths [where grp = "Holds_DL_Group toy_dl_group"
        and own_key = "DH_PrivateKey toy_dl_group 7" and pub_value = "[8]"]
    by (simp_all add: draws policy p BigInt_decode_single)
  have named:
    "is_dh_group toy_kex (Holds_Group_Params 256)"
    "tls_generate_ephemeral_key toy_kex (Holds_Group_Params 256) (5::nat)
       = Inr (DH_PrivateKey toy_dl_group 7)"
    "fst (tls_ephemeral_key_agreement toy_kex (Holds_Group_Params 256)
            (DH_PrivateKey toy_dl_group 7) [8] (0::nat) toy_policy)
       = [Policy_check (DH_PublicKey toy_dl_group 8),
          Key_agreement (DH_PrivateKey toy_dl_group 7) (DH_PublicKey toy_dl_group 8)]"
    using paths [where grp = "Holds_Group_Params 256"
        and own_key = "DH_PrivateKey toy_dl_group 7" and pub_value = "[8]"]
    by (simp_all add: classes lookups draws policy p BigInt_decode_single)
  have curve:
    "\<not> is_dh_group toy_kex (Holds_Group_Params 23)"
    "tls_generate_ephemeral_key toy_kex (Holds_Group_Params 23) (5::nat)
       = Inr (ECDH_PrivateKey ''secp256r1'' 6)"
    "fst (tls_ephemeral_key_agreement toy_kex (Holds_Group_Params 23)
            (ECDH_PrivateKey ''secp256r1'' 6) [4, 5, 1] (0::nat) toy_policy)
       = [Point_decode ''secp256r1'' [4, 5, 1],
          Policy_check (ECDH_PublicKey ''secp256r1'' (5, 1)),
          Key_agreement (ECDH_PrivateKey ''secp256r1'' 6) (ECDH_PublicKey ''secp256r1'' (5, 1))]"
    using paths [where grp = "Holds_Group_Params 23"
        and own_key = "ECDH_PrivateKey ''secp256r1'' 6" and pub_value = "[4, 5, 1]"]
    by (simp_all add: classes lookups draws policy)
  have fixed:
    "\<not> is_dh_group toy_kex (Holds_Group_Params 29)"
    "tls_generate_ephemeral_key toy_kex (Holds_Group_Params 29) (5::nat)
       = Inr (X25519_PrivateKey (replicate 32 5))"
    "fst (tls_ephemeral_key_agreement toy_kex (Holds_Group_Params 29)
            (X25519_PrivateKey (replicate 32 5)) (replicate 32 0) (0::nat) toy_policy)
       = [Policy_check (Curve25519_PublicKey (replicate 32 0)),
          Key_agreement (X25519_PrivateKey (replicate 32 5))
            (Curve25519_PublicKey (replicate 32 0))]"
    using paths [where grp = "Holds_Group_Params 29"
        and own_key = "X25519_PrivateKey (replicate 32 5)" and pub_value = "replicate 32 0"]
    by (simp_all add: classes draws policy)
  have none:
    "tls_generate_ephemeral_key toy_kex (Holds_Group_Params 0) (5::nat)
       = Inl (TLS_Exception DecodeError
                ''cannot create a key offering without a group definition'')"
    "tls_ephemeral_key_agreement toy_kex (Holds_Group_Params 0)
         (X25519_PrivateKey (replicate 32 5)) (replicate 32 0) (0::nat) toy_policy
       = ([], Inl (TLS_Exception IllegalParameter
                     ''Did not recognize the key exchange group''))"
    using paths [where grp = "Holds_Group_Params 0"
        and own_key = "X25519_PrivateKey (replicate 32 5)" and pub_value = "replicate 32 0"]
    by (simp_all add: classes)
  from explicit named curve fixed none show ?thesis
    by (intro conjI)
qed

subsection \<open>Certificate chain verification\<close>

text \<open>
  C6. With an empty chain the operation ends with the invalid-argument error and an
  empty trace: the policy was not read (no restrictions were built), the clock and the
  OCSP timeout were not read, and path validation, which looks up the trust anchors,
  was not called.
\<close>

theorem verify_cert_chain_empty:
  "tls_verify_cert_chain c [] ocsp_responses trusted_roots usage hostname policy =
     ([], Inl (Invalid_Argument ''Certificate chain was empty''))"
  by (simp add: tls_verify_cert_chain_def comp_simps)

text \<open>
  What the operation does with a chain that is not empty: the four reads, in the order
  that the run takes at the two calls, then path validation, whose verdict is the result.
\<close>

lemma args2_reads:
  "args2 ord ([ev1], Inr x) ([ev2], Inr y) =
     ((case ord of Left_to_right \<Rightarrow> [ev1, ev2] | Right_to_left \<Rightarrow> [ev2, ev1]), Inr (x, y))"
  by (cases ord) (simp_all add: args2_def comp_simps)

lemma verify_cert_chain_nonempty:
  assumes "cert_chain \<noteq> []"
  shows "tls_verify_cert_chain c cert_chain ocsp_responses trusted_roots usage hostname policy =
     (let restrictions =
            \<lparr>require_revocation_information = require_cert_revocation_info policy,
             minimum_key_strength = minimum_signature_strength policy\<rparr>;
          host = (if usage = TLS_SERVER_AUTH then hostname else '''');
          trace =
            (case restrictions_arg_order c of
               Left_to_right \<Rightarrow>
                 [Read_require_cert_revocation_info, Read_minimum_signature_strength]
             | Right_to_left \<Rightarrow>
                 [Read_minimum_signature_strength, Read_require_cert_revocation_info])
            @ (case path_validate_arg_order c of
                 Left_to_right \<Rightarrow> [Read_current_timestamp, Read_ocsp_timeout]
               | Right_to_left \<Rightarrow> [Read_ocsp_timeout, Read_current_timestamp])
            @ [Path_validate cert_chain restrictions trusted_roots host usage
                 (tls_current_timestamp c) (tls_verify_cert_chain_ocsp_timeout c)
                 ocsp_responses]
      in
      case x509_path_validate c cert_chain restrictions trusted_roots host usage
             (tls_current_timestamp c) (tls_verify_cert_chain_ocsp_timeout c)
             ocsp_responses of
        Inl e \<Rightarrow> (trace, Inl e)
      | Inr result \<Rightarrow>
          if successful_validation result then (trace, Inr ())
          else (trace, Inl (TLS_Exception BadCertificate
                  (''Certificate validation failure: '' @ result_string result))))"
  using assms
  by (simp add: tls_verify_cert_chain_def args2_reads comp_simps Let_def split: sum.splits)

text \<open>
  C7. With a chain that is not empty, whatever order the run takes for the reads: path
  validation is called once, as the last call, after the four reads, and the host name it
  receives is the peer's host name when the usage is \<open>TLS_SERVER_AUTH\<close> and the empty
  string for every other usage. The result of the operation is the verdict of path
  validation on these arguments: its exception, or success, or the bad-certificate alert
  with its diagnostic. For every other usage the whole outcome, trace and result, is
  therefore the same for any two host names.
\<close>

theorem verify_hostname_binding:
  assumes "cert_chain \<noteq> []"
  shows
    "(let restrictions =
            \<lparr>require_revocation_information = require_cert_revocation_info policy,
             minimum_key_strength = minimum_signature_strength policy\<rparr>;
          host = (if usage = TLS_SERVER_AUTH then hostname else '''');
          outcome =
            tls_verify_cert_chain c cert_chain ocsp_responses trusted_roots usage hostname
              policy
      in
        last (fst outcome) =
          Path_validate cert_chain restrictions trusted_roots host usage
            (tls_current_timestamp c) (tls_verify_cert_chain_ocsp_timeout c) ocsp_responses
        \<and> length (fst outcome) = 5
        \<and> set (butlast (fst outcome)) =
            {Read_require_cert_revocation_info, Read_minimum_signature_strength,
             Read_current_timestamp, Read_ocsp_timeout}
        \<and> snd outcome =
            (case x509_path_validate c cert_chain restrictions trusted_roots host usage
                    (tls_current_timestamp c) (tls_verify_cert_chain_ocsp_timeout c)
                    ocsp_responses of
               Inl e \<Rightarrow> Inl e
             | Inr result \<Rightarrow>
                 if successful_validation result then Inr ()
                 else Inl (TLS_Exception BadCertificate
                        (''Certificate validation failure: '' @ result_string result))))
     \<and> (usage \<noteq> TLS_SERVER_AUTH \<longrightarrow>
          tls_verify_cert_chain c cert_chain ocsp_responses trusted_roots usage hostname
            policy =
          tls_verify_cert_chain c cert_chain ocsp_responses trusted_roots usage hostname'
            policy)"
  by (cases "restrictions_arg_order c"; cases "path_validate_arg_order c")
    (auto simp: verify_cert_chain_nonempty [OF assms] Let_def split: sum.splits)

text \<open>
  A leaf for \<open>example.com\<close> under a trusted root. As a server certificate it is accepted
  for the host name \<open>example.com\<close> and refused for \<open>example.org\<close>, which path validation
  receives. For another usage path validation receives the empty string, and the
  certificate is accepted whatever the host name.
\<close>

theorem verify_hostname_binding_witness:
  "[(''example.com'', ''Root CA'')] \<noteq> []
   \<and> last (fst (tls_verify_cert_chain toy_cert [(''example.com'', ''Root CA'')] [None]
                  [''Root CA''] TLS_SERVER_AUTH ''example.org'' toy_policy)) =
       Path_validate [(''example.com'', ''Root CA'')]
         \<lparr>require_revocation_information = False, minimum_key_strength = 110\<rparr>
         [''Root CA''] ''example.org'' TLS_SERVER_AUTH 1700000000 0 [None]
   \<and> snd (tls_verify_cert_chain toy_cert [(''example.com'', ''Root CA'')] [None]
            [''Root CA''] TLS_SERVER_AUTH ''example.org'' toy_policy) =
       Inl (TLS_Exception BadCertificate
         ''Certificate validation failure: Certificate does not match provided name'')
   \<and> snd (tls_verify_cert_chain toy_cert [(''example.com'', ''Root CA'')] [None]
            [''Root CA''] TLS_SERVER_AUTH ''example.com'' toy_policy) = Inr ()
   \<and> last (fst (tls_verify_cert_chain toy_cert [(''example.com'', ''Root CA'')] [None]
                  [''Root CA''] (Other_Usage 2) ''example.org'' toy_policy)) =
       Path_validate [(''example.com'', ''Root CA'')]
         \<lparr>require_revocation_information = False, minimum_key_strength = 110\<rparr>
         [''Root CA''] '''' (Other_Usage 2) 1700000000 0 [None]
   \<and> snd (tls_verify_cert_chain toy_cert [(''example.com'', ''Root CA'')] [None]
            [''Root CA''] (Other_Usage 2) ''example.org'' toy_policy) = Inr ()
   \<and> tls_verify_cert_chain toy_cert [(''example.com'', ''Root CA'')] [None]
         [''Root CA''] (Other_Usage 2) ''example.org'' toy_policy =
       tls_verify_cert_chain toy_cert [(''example.com'', ''Root CA'')] [None]
         [''Root CA''] (Other_Usage 2) ''example.com'' toy_policy"
proof -
  have nonempty: "[(''example.com'', ''Root CA'')] \<noteq> []"
    by simp
  note binding = verify_hostname_binding
    [OF nonempty, where c = toy_cert and policy = toy_policy and ocsp_responses = "[None]"
       and trusted_roots = "[''Root CA'']"]
  have env: "tls_current_timestamp toy_cert = 1700000000"
    "tls_verify_cert_chain_ocsp_timeout toy_cert = 0"
    "require_cert_revocation_info toy_policy = False"
    "minimum_signature_strength toy_policy = 110"
    "x509_path_validate toy_cert = toy_x509_path_validate"
    by (simp_all add: toy_cert_def toy_policy_def)
  have refused:
    "last (fst (tls_verify_cert_chain toy_cert [(''example.com'', ''Root CA'')] [None]
                  [''Root CA''] TLS_SERVER_AUTH ''example.org'' toy_policy)) =
       Path_validate [(''example.com'', ''Root CA'')]
         \<lparr>require_revocation_information = False, minimum_key_strength = 110\<rparr>
         [''Root CA''] ''example.org'' TLS_SERVER_AUTH 1700000000 0 [None]"
    "snd (tls_verify_cert_chain toy_cert [(''example.com'', ''Root CA'')] [None]
            [''Root CA''] TLS_SERVER_AUTH ''example.org'' toy_policy) =
       Inl (TLS_Exception BadCertificate
         ''Certificate validation failure: Certificate does not match provided name'')"
    using binding [where usage = TLS_SERVER_AUTH and hostname = "''example.org''"]
    by (simp_all add: env toy_x509_path_validate_def Let_def)
  have accepted:
    "snd (tls_verify_cert_chain toy_cert [(''example.com'', ''Root CA'')] [None]
            [''Root CA''] TLS_SERVER_AUTH ''example.com'' toy_policy) = Inr ()"
    using binding [where usage = TLS_SERVER_AUTH and hostname = "''example.com''"]
    by (simp add: env toy_x509_path_validate_def Let_def)
  have other:
    "last (fst (tls_verify_cert_chain toy_cert [(''example.com'', ''Root CA'')] [None]
                  [''Root CA''] (Other_Usage 2) ''example.org'' toy_policy)) =
       Path_validate [(''example.com'', ''Root CA'')]
         \<lparr>require_revocation_information = False, minimum_key_strength = 110\<rparr>
         [''Root CA''] '''' (Other_Usage 2) 1700000000 0 [None]"
    "snd (tls_verify_cert_chain toy_cert [(''example.com'', ''Root CA'')] [None]
            [''Root CA''] (Other_Usage 2) ''example.org'' toy_policy) = Inr ()"
    using binding [where usage = "Other_Usage 2" and hostname = "''example.org''"]
    by (simp_all add: env toy_x509_path_validate_def Let_def)
  have same:
    "tls_verify_cert_chain toy_cert [(''example.com'', ''Root CA'')] [None]
         [''Root CA''] (Other_Usage 2) ''example.org'' toy_policy =
       tls_verify_cert_chain toy_cert [(''example.com'', ''Root CA'')] [None]
         [''Root CA''] (Other_Usage 2) ''example.com'' toy_policy"
    using binding [where usage = "Other_Usage 2" and hostname = "''example.org''"
      and hostname' = "''example.com''"]
    by (simp add: Let_def)
  from nonempty refused accepted other same show ?thesis
    by (intro conjI)
qed

subsection \<open>OCSP response parsing\<close>

text \<open>
  C8. Whatever the bytes, the operation never ends with a decoding error: when the
  response parser throws one, the result is the absent response, and when the parser
  returns a response, the result is that response.
\<close>

theorem parse_ocsp_response_swallows_decoding_error:
  "(\<forall>m. tls_parse_ocsp_response c raw_response \<noteq> Inl (Decoding_Error m))
   \<and> (\<forall>m. OCSP_Response c raw_response = Inl (Decoding_Error m) \<longrightarrow>
          tls_parse_ocsp_response c raw_response = Inr None)
   \<and> (\<forall>response. OCSP_Response c raw_response = Inr response \<longrightarrow>
          tls_parse_ocsp_response c raw_response = Inr (Some response))"
  by (auto simp: tls_parse_ocsp_response_def split: sum.splits error.splits)

text \<open>
  Bytes that do not start a sequence make the parser throw a decoding error, and the
  result is the absent response; bytes that it accepts give the response.
\<close>

theorem parse_ocsp_response_swallows_decoding_error_witness:
  "OCSP_Response toy_cert [0x31] = Inl (Decoding_Error ''BER: Tag mismatch when decoding'')
   \<and> tls_parse_ocsp_response toy_cert [0x31] = Inr None
   \<and> OCSP_Response toy_cert [0x30, 0x03] = Inr ''successful''
   \<and> tls_parse_ocsp_response toy_cert [0x30, 0x03] = Inr (Some ''successful'')"
proof -
  have bad: "OCSP_Response toy_cert [0x31]
               = Inl (Decoding_Error ''BER: Tag mismatch when decoding'')"
    and good: "OCSP_Response toy_cert [0x30, 0x03] = Inr ''successful''"
    by (simp_all add: toy_cert_def)
  from parse_ocsp_response_swallows_decoding_error [of toy_cert "[0x31]"] bad
  have "tls_parse_ocsp_response toy_cert [0x31] = Inr None"
    by blast
  moreover
  from parse_ocsp_response_swallows_decoding_error [of toy_cert "[0x30, 0x03]"] good
  have "tls_parse_ocsp_response toy_cert [0x30, 0x03] = Inr (Some ''successful'')"
    by blast
  ultimately show ?thesis
    using bad good by blast
qed

text \<open>
  Only decoding errors are caught: an exception of another class that the response
  parser throws leaves the operation as it is.
\<close>

lemma parse_ocsp_response_other_exception:
  "OCSP_Response c raw_response = Inl e \<Longrightarrow> (\<forall>m. e \<noteq> Decoding_Error m) \<Longrightarrow>
     tls_parse_ocsp_response c raw_response = Inl e"
  by (cases e) (simp_all add: tls_parse_ocsp_response_def)

subsection \<open>EC keys: decoding a public key\<close>

lemma catch_Illegal_Point_None: "catch_Illegal_Point r e' = None \<longleftrightarrow> r = None"
  by (auto simp: catch_Illegal_Point_def split: option.splits error.splits)

lemma catch_Illegal_Point_Illegal: "catch_Illegal_Point (Some (Illegal_Point m)) e' = Some e'"
  by (simp add: catch_Illegal_Point_def)

text \<open>
  C3. For every algorithm identifier and every byte string: a key is returned only if
  its point is the point that the bytes decode to on the curve of the decoded domain
  parameters and that point passed the invariant check; and whenever the domain
  parameters and the point decode and the invariant check of the point throws
  \<open>Illegal_Point\<close>, the constructor fails with the decoding error "Invalid public point;
  not on curve". No key comes out of this constructor unchecked.
\<close>

theorem public_key_decode_validates:
  "(\<forall>k. EC_PublicKey_decode c alg_id key_bits = Inr k \<longrightarrow>
        OS2ECP c key_bits (get_curve (domain_params k)) = Inr (public_key k)
        \<and> check_invariants c (public_key k) = None)
   \<and> (\<forall>dpar pub m.
        decode_domain_params c (parameters alg_id) = Inr dpar
        \<and> OS2ECP c key_bits (get_curve dpar) = Inr pub
        \<and> check_invariants c pub = Some (Illegal_Point m) \<longrightarrow>
        EC_PublicKey_decode c alg_id key_bits =
          Inl (Decoding_Error ''Invalid public point; not on curve''))"
  by (auto simp: EC_PublicKey_decode_def catch_Illegal_Point_None
        catch_Illegal_Point_Illegal split: sum.splits option.splits)

text \<open>
  On the curve \<open>y\<^sup>2 = x\<^sup>3 + 2 x + 2\<close> over the field of 17 elements: the bytes of the
  point (5, 2), which is not on the curve, give the decoding error; the bytes of (5, 1),
  which is, give a key whose point passed the check.
\<close>

theorem public_key_decode_validates_witness:
  "decode_domain_params toy_ecc (parameters toy_alg_id) = Inr toy_domain
   \<and> OS2ECP toy_ecc [4, 5, 2] (get_curve toy_domain) = Inr ((17, 2, 2), Some (5, 2))
   \<and> check_invariants toy_ecc ((17, 2, 2), Some (5, 2)) =
       Some (Illegal_Point ''Invalid ECP point: y^2 not equal to x^3 + a*x + b'')
   \<and> EC_PublicKey_decode toy_ecc toy_alg_id [4, 5, 2] =
       Inl (Decoding_Error ''Invalid public point; not on curve'')
   \<and> EC_PublicKey_decode toy_ecc toy_alg_id [4, 5, 1] =
       Inr \<lparr>domain_params = toy_domain, public_key = ((17, 2, 2), Some (5, 1)),
            domain_encoding = EC_DOMPAR_ENC_EXPLICIT\<rparr>
   \<and> check_invariants toy_ecc ((17, 2, 2), Some (5, 1)) = None"
proof -
  have domain: "decode_domain_params toy_ecc (parameters toy_alg_id) = Inr toy_domain"
    by (simp add: toy_ecc_def toy_alg_id_def toy_domain_def)
  have point: "OS2ECP toy_ecc [4, 5, 2] (get_curve toy_domain) = Inr ((17, 2, 2), Some (5, 2))"
    by (simp add: toy_ecc_def toy_domain_def)
  have invalid: "check_invariants toy_ecc ((17, 2, 2), Some (5, 2)) =
       Some (Illegal_Point ''Invalid ECP point: y^2 not equal to x^3 + a*x + b'')"
    by (simp add: toy_ecc_def)
  have good: "EC_PublicKey_decode toy_ecc toy_alg_id [4, 5, 1] =
       Inr \<lparr>domain_params = toy_domain, public_key = ((17, 2, 2), Some (5, 1)),
            domain_encoding = EC_DOMPAR_ENC_EXPLICIT\<rparr>"
    by (simp add: EC_PublicKey_decode_def catch_Illegal_Point_def toy_ecc_def toy_alg_id_def
          toy_domain_def)
  from public_key_decode_validates [of toy_ecc toy_alg_id "[4, 5, 2]"] domain point invalid
  have rejected: "EC_PublicKey_decode toy_ecc toy_alg_id [4, 5, 2] =
       Inl (Decoding_Error ''Invalid public point; not on curve'')"
    by blast
  from public_key_decode_validates [of toy_ecc toy_alg_id "[4, 5, 1]"] good
  have checked: "check_invariants toy_ecc ((17, 2, 2), Some (5, 1)) = None"
    by simp
  from domain point invalid rejected good checked show ?thesis
    by (intro conjI)
qed

text \<open>
  When the domain parameters or the point do not decode, the exception of the decoder
  is the constructor's, unchanged.
\<close>

lemma public_key_decode_decoder_exception:
  "decode_domain_params c (parameters alg_id) = Inl e \<Longrightarrow>
     EC_PublicKey_decode c alg_id key_bits = Inl e"
  "decode_domain_params c (parameters alg_id) = Inr dpar \<Longrightarrow>
     OS2ECP c key_bits (get_curve dpar) = Inl e \<Longrightarrow>
     EC_PublicKey_decode c alg_id key_bits = Inl e"
  by (simp_all add: EC_PublicKey_decode_def)

subsection \<open>EC keys: encoding and decoding a private key\<close>

lemma uint_byte_of_nat: "uint (of_nat (n mod 256) :: byte) = int (n mod 256)"
  by (simp add: uint_nat unat_of_nat)

lemma BigInt_decode_big_endian: "BigInt_decode (big_endian n) = int n"
proof (induction n rule: big_endian.induct)
  case (1 n)
  show ?case
  proof (cases "n = 0")
    case True
    then show ?thesis
      by (simp add: BigInt_decode_def big_endian.simps)
  next
    case False
    have "BigInt_decode (big_endian n)
            = BigInt_decode (big_endian (n div 256)) * 256 + uint (of_nat (n mod 256) :: byte)"
      using False by (subst big_endian.simps) (simp add: BigInt_decode_snoc)
    also have "\<dots> = int (n div 256) * 256 + int (n mod 256)"
      using 1 False by (simp add: uint_byte_of_nat)
    also have "\<dots> = int n"
      by (simp add: zdiv_int zmod_int)
    finally show ?thesis .
  qed
qed

lemma BigInt_encode_1363_minimal:
  "BigInt_encode_1363 n (BigInt_bytes n) = Inr (big_endian (nat \<bar>n\<bar>))"
  by (simp add: BigInt_encode_1363_def BigInt_bytes_def Let_def)

text \<open>
  Every key that the generating or the decoding constructor returns holds the base point
  times its scalar as public point, and that point passed the invariant check; a decoded
  scalar is not negative.
\<close>

lemma generated_key_checked:
  assumes "EC_PrivateKey_generate c rng dom_par = Inr k"
  shows "domain_params k = dom_par
       \<and> public_key k = mult c (get_base_point (domain_params k)) (private_key k)
       \<and> check_invariants c (public_key k) = None"
  using assms
  by (auto simp: EC_PrivateKey_generate_def Let_def catch_Illegal_Point_None
        split: sum.splits option.splits)

lemma decoded_key_checked:
  assumes "EC_PrivateKey_decode c alg_id key_bits = Inr k"
  shows "decode_domain_params c (parameters alg_id) = Inr (domain_params k)
       \<and> public_key k = mult c (get_base_point (domain_params k)) (private_key k)
       \<and> check_invariants c (public_key k) = None
       \<and> 0 \<le> private_key k"
  using assms
  by (auto simp: EC_PrivateKey_decode_def Let_def catch_Illegal_Point_None
        BigInt_decode_nonneg split: sum.splits option.splits if_splits)

text \<open>
  C2, as amended. Let \<open>k\<close> be a private key with a positive scalar, whose public point is
  the base point times the scalar (every constructor makes it so) and passes the
  invariant check (as it does for every key from the generating or the decoding
  constructor), and let the BER decoder return, on the encoder's output for \<open>k\<close>, the
  version and the octets that the DER encoder was given. Then encoding \<open>k\<close> and decoding
  the result under an algorithm identifier with \<open>k\<close>'s domain parameters succeeds, and
  the decoded key has \<open>k\<close>'s scalar, public point and domain parameters.
\<close>

theorem private_key_encode_decode_roundtrip:
  assumes positive: "0 < private_key k"
    and derived: "public_key k = mult c (get_base_point (domain_params k)) (private_key k)"
    and valid: "check_invariants c (public_key k) = None"
    and same_domain: "decode_domain_params c (parameters alg_id) = Inr (domain_params k)"
    and der: "BER_decode_key c (DER_encode_key c 1 (big_endian (nat (private_key k))))
                = Inr (1, big_endian (nat (private_key k)))"
  shows "and_then (pkcs8_private_key c k) (EC_PrivateKey_decode c alg_id) =
           Inr \<lparr>domain_params = domain_params k, public_key = public_key k,
                domain_encoding = EC_DOMPAR_ENC_EXPLICIT, private_key = private_key k\<rparr>"
proof -
  let ?octets = "big_endian (nat (private_key k))"
  have magnitude: "\<bar>private_key k\<bar> = private_key k"
    using positive by simp
  have encoded: "pkcs8_private_key c k = Inr (DER_encode_key c 1 ?octets)"
    by (simp add: pkcs8_private_key_def BigInt_encode_1363_minimal magnitude)
  have scalar: "BigInt_decode ?octets = private_key k"
    using positive by (simp add: BigInt_decode_big_endian)
  have "EC_PrivateKey_decode c alg_id (DER_encode_key c 1 ?octets)
          = Inr \<lparr>domain_params = domain_params k, public_key = public_key k,
                 domain_encoding = EC_DOMPAR_ENC_EXPLICIT, private_key = private_key k\<rparr>"
    using valid
    by (simp add: EC_PrivateKey_decode_def same_domain der scalar Let_def
          derived [symmetric] catch_Illegal_Point_def)
  with encoded show ?thesis
    by (simp add: and_then_def)
qed

text \<open>Evaluating the small curve.\<close>

lemma toy_times_numeral: "toy_times (numeral n) P = toy_add P (toy_times (pred_numeral n) P)"
  by (simp add: numeral_eq_Suc)

lemmas toy_ecc_simps =
  toy_ecc_def toy_domain_def bad_domain_def toy_alg_id_def bad_alg_id_def
  EC_PrivateKey_of_scalar_def toy_mult_def toy_times_numeral toy_inverse_def Let_def
  toy_DER_encode_key_def toy_random_integer_def

lemma big_endian_byte: "0 < n \<Longrightarrow> n < 256 \<Longrightarrow> big_endian n = [of_nat n]"
  by (subst big_endian.simps) (simp add: big_endian.simps)

text \<open>
  The key with scalar 7 on the curve over the field of 17 elements, with base point
  (5, 1) of order 19: its public point (0, 6) is on the curve, its encoding is the DER
  sequence of the integer 1 and the octet 7, and decoding gives the key back.
\<close>

theorem private_key_encode_decode_roundtrip_witness:
  "0 < private_key (EC_PrivateKey_of_scalar toy_ecc toy_domain 7)
   \<and> check_invariants toy_ecc (public_key (EC_PrivateKey_of_scalar toy_ecc toy_domain 7)) = None
   \<and> decode_domain_params toy_ecc (parameters toy_alg_id) = Inr toy_domain
   \<and> BER_decode_key toy_ecc (DER_encode_key toy_ecc 1 [7]) = Inr (1, [7])
   \<and> and_then (pkcs8_private_key toy_ecc (EC_PrivateKey_of_scalar toy_ecc toy_domain 7))
         (EC_PrivateKey_decode toy_ecc toy_alg_id) =
       Inr \<lparr>domain_params = toy_domain, public_key = ((17, 2, 2), Some (0, 6)),
            domain_encoding = EC_DOMPAR_ENC_EXPLICIT, private_key = 7\<rparr>"
proof -
  let ?k = "EC_PrivateKey_of_scalar toy_ecc toy_domain 7"
  have octets: "big_endian (nat (private_key ?k)) = [7]"
    by (simp add: EC_PrivateKey_of_scalar_def big_endian_byte)
  have positive: "0 < private_key ?k"
    by (simp add: EC_PrivateKey_of_scalar_def)
  have derived:
    "public_key ?k = mult toy_ecc (get_base_point (domain_params ?k)) (private_key ?k)"
    by (simp add: EC_PrivateKey_of_scalar_def)
  have point: "public_key ?k = ((17, 2, 2), Some (0, 6))"
    by (simp add: toy_ecc_simps)
  have valid: "check_invariants toy_ecc (public_key ?k) = None"
    by (simp add: point) (simp add: toy_ecc_def)
  have same_domain:
    "decode_domain_params toy_ecc (parameters toy_alg_id) = Inr (domain_params ?k)"
    by (simp add: toy_ecc_simps)
  have der: "BER_decode_key toy_ecc (DER_encode_key toy_ecc 1 [7]) = Inr (1, [7])"
    by (simp add: toy_ecc_simps)
  from private_key_encode_decode_roundtrip [of ?k toy_ecc toy_alg_id]
    positive derived valid same_domain der
  have "and_then (pkcs8_private_key toy_ecc ?k) (EC_PrivateKey_decode toy_ecc toy_alg_id) =
       Inr \<lparr>domain_params = domain_params ?k, public_key = public_key ?k,
            domain_encoding = EC_DOMPAR_ENC_EXPLICIT, private_key = private_key ?k\<rparr>"
    by (simp add: octets)
  then have roundtrip:
    "and_then (pkcs8_private_key toy_ecc ?k) (EC_PrivateKey_decode toy_ecc toy_alg_id) =
       Inr \<lparr>domain_params = toy_domain, public_key = ((17, 2, 2), Some (0, 6)),
            domain_encoding = EC_DOMPAR_ENC_EXPLICIT, private_key = 7\<rparr>"
    by (simp add: point) (simp add: EC_PrivateKey_of_scalar_def)
  have same_domain': "decode_domain_params toy_ecc (parameters toy_alg_id) = Inr toy_domain"
    using same_domain by (simp add: EC_PrivateKey_of_scalar_def)
  from positive valid same_domain' der roundtrip show ?thesis
    by (intro conjI)
qed

text \<open>
  C2 as stated fails. On the same curve take as base point (5, 2), which is not on the
  curve, and build the key with scalar 3 by the constructor that takes a scalar. The
  scalar is populated and the key encodes, but decoding the encoding under the same
  domain parameters fails with the internal error: the decoding constructor checks the
  point that the other constructor did not check.
\<close>

theorem private_key_roundtrip_fails_for_unchecked_key:
  "private_value (EC_PrivateKey_of_scalar toy_ecc bad_domain 3) = Inr 3
   \<and> decode_domain_params toy_ecc (parameters bad_alg_id) = Inr bad_domain
   \<and> pkcs8_private_key toy_ecc (EC_PrivateKey_of_scalar toy_ecc bad_domain 3) =
       Inr [0x30, 6, 2, 1, 1, 4, 1, 3]
   \<and> EC_PrivateKey_decode toy_ecc bad_alg_id [0x30, 6, 2, 1, 1, 4, 1, 3] =
       Inl (Internal_Error ''Loaded ECC private key failed self test'')"
proof -
  have populated: "private_value (EC_PrivateKey_of_scalar toy_ecc bad_domain 3) = Inr 3"
    by (simp add: private_value_def EC_PrivateKey_of_scalar_def)
  have domain: "decode_domain_params toy_ecc (parameters bad_alg_id) = Inr bad_domain"
    by (simp add: toy_ecc_simps)
  have encoded: "pkcs8_private_key toy_ecc (EC_PrivateKey_of_scalar toy_ecc bad_domain 3) =
       Inr [0x30, 6, 2, 1, 1, 4, 1, 3]"
    by (simp add: pkcs8_private_key_def BigInt_encode_1363_minimal
          EC_PrivateKey_of_scalar_def big_endian_byte toy_ecc_def toy_DER_encode_key_def)
  have point: "mult toy_ecc (get_base_point bad_domain) 3 = ((17, 2, 2), Some (16, 6))"
    by (simp add: toy_ecc_simps)
  have decoded: "EC_PrivateKey_decode toy_ecc bad_alg_id [0x30, 6, 2, 1, 1, 4, 1, 3] =
       Inl (Internal_Error ''Loaded ECC private key failed self test'')"
    using point domain
    by (simp add: EC_PrivateKey_decode_def BigInt_decode_def Let_def catch_Illegal_Point_def
          toy_ecc_def)
  from populated domain encoded decoded show ?thesis
    by (intro conjI)
qed

text \<open>
  The encoding holds the magnitude of the scalar only: the key with scalar -3 and point
  (10, 11) decodes to the key with scalar 3 and point (10, 6).
\<close>

lemma negative_scalar_not_reproduced:
  "EC_PrivateKey_of_scalar toy_ecc toy_domain (- 3) =
     \<lparr>domain_params = toy_domain, public_key = ((17, 2, 2), Some (10, 11)),
      domain_encoding = EC_DOMPAR_ENC_EXPLICIT, private_key = - 3\<rparr>
   \<and> and_then (pkcs8_private_key toy_ecc (EC_PrivateKey_of_scalar toy_ecc toy_domain (- 3)))
         (EC_PrivateKey_decode toy_ecc toy_alg_id) =
       Inr \<lparr>domain_params = toy_domain, public_key = ((17, 2, 2), Some (10, 6)),
            domain_encoding = EC_DOMPAR_ENC_EXPLICIT, private_key = 3\<rparr>"
proof -
  have key: "EC_PrivateKey_of_scalar toy_ecc toy_domain (- 3) =
     \<lparr>domain_params = toy_domain, public_key = ((17, 2, 2), Some (10, 11)),
      domain_encoding = EC_DOMPAR_ENC_EXPLICIT, private_key = - 3\<rparr>"
    by (simp add: toy_ecc_simps)
  have encoded: "pkcs8_private_key toy_ecc (EC_PrivateKey_of_scalar toy_ecc toy_domain (- 3)) =
       Inr [0x30, 6, 2, 1, 1, 4, 1, 3]"
    by (simp add: pkcs8_private_key_def BigInt_encode_1363_minimal
          EC_PrivateKey_of_scalar_def big_endian_byte toy_ecc_def toy_DER_encode_key_def)
  have point: "toy_mult (get_base_point toy_domain) 3 = ((17, 2, 2), Some (10, 6))"
    by (simp add: toy_ecc_simps)
  have domain: "toy_decode_domain_params (parameters toy_alg_id) = Inr toy_domain"
    by (simp add: toy_ecc_simps)
  have decoded: "EC_PrivateKey_decode toy_ecc toy_alg_id [0x30, 6, 2, 1, 1, 4, 1, 3] =
       Inr \<lparr>domain_params = toy_domain, public_key = ((17, 2, 2), Some (10, 6)),
            domain_encoding = EC_DOMPAR_ENC_EXPLICIT, private_key = 3\<rparr>"
    using point domain
    by (simp add: EC_PrivateKey_decode_def BigInt_decode_def Let_def catch_Illegal_Point_def
          toy_ecc_def)
  from key encoded decoded show ?thesis
    by (simp add: and_then_def)
qed

subsection \<open>EC keys: the constructor that takes a scalar\<close>

text \<open>
  C10. For every scalar, whatever the order of the group, the constructor that takes
  domain parameters and a scalar returns a key: the key holds that scalar, the base point
  times that scalar, and the domain parameters. The result is the same whatever the
  invariant check would answer, so the check is not consulted. Where the check would
  throw \<open>Illegal_Point\<close> on that point, the generating constructor, when it draws this
  scalar, and the decoding constructor, when it decodes this scalar, both fail with an
  internal error.
\<close>

theorem explicit_scalar_constructor_unchecked:
  "private_key (EC_PrivateKey_of_scalar c dom_par s) = s
   \<and> public_key (EC_PrivateKey_of_scalar c dom_par s) = mult c (get_base_point dom_par) s
   \<and> domain_params (EC_PrivateKey_of_scalar c dom_par s) = dom_par
   \<and> EC_PrivateKey_of_scalar (c\<lparr>check_invariants := chk\<rparr>) dom_par s =
       EC_PrivateKey_of_scalar c dom_par s
   \<and> (\<forall>m. check_invariants c (mult c (get_base_point dom_par) s) = Some (Illegal_Point m) \<longrightarrow>
        (random_integer c rng 1 (get_order dom_par) = Inr s \<longrightarrow>
           EC_PrivateKey_generate c rng dom_par =
             Inl (Internal_Error ''ECC private key generation failed''))
        \<and> (decode_domain_params c (parameters alg_id) = Inr dom_par
             \<and> BER_decode_key c key_bits = Inr (1, octets) \<and> BigInt_decode octets = s \<longrightarrow>
           EC_PrivateKey_decode c alg_id key_bits =
             Inl (Internal_Error ''Loaded ECC private key failed self test'')))"
  by (auto simp: EC_PrivateKey_of_scalar_def EC_PrivateKey_generate_def
        EC_PrivateKey_decode_def catch_Illegal_Point_Illegal Let_def)

text \<open>
  On the curve over the field of 17 elements with base point (5, 1) of order 19, the
  constructor takes the scalar 0 (the point at infinity; \<open>private_value\<close> then reports
  the key as uninitialized), and the scalars 19 and 300, which are not below the order.
  With the base point (5, 2), which is not on the curve, it takes the scalar 3, whose
  point the invariant check refuses, while the generating constructor fails when it draws 3.
\<close>

theorem explicit_scalar_constructor_unchecked_witness:
  "private_key (EC_PrivateKey_of_scalar toy_ecc toy_domain 0) = 0
   \<and> public_key (EC_PrivateKey_of_scalar toy_ecc toy_domain 0) = ((17, 2, 2), None)
   \<and> private_key (EC_PrivateKey_of_scalar toy_ecc toy_domain 19) = 19
   \<and> private_key (EC_PrivateKey_of_scalar toy_ecc toy_domain 300) = 300
   \<and> private_key (EC_PrivateKey_of_scalar toy_ecc bad_domain 3) = 3
   \<and> public_key (EC_PrivateKey_of_scalar toy_ecc bad_domain 3) = ((17, 2, 2), Some (16, 6))
   \<and> check_invariants toy_ecc ((17, 2, 2), Some (16, 6)) =
       Some (Illegal_Point ''Invalid ECP point: y^2 not equal to x^3 + a*x + b'')
   \<and> random_integer toy_ecc 2 1 (get_order bad_domain) = Inr 3
   \<and> EC_PrivateKey_generate toy_ecc 2 bad_domain =
       Inl (Internal_Error ''ECC private key generation failed'')
   \<and> decode_domain_params toy_ecc (parameters bad_alg_id) = Inr bad_domain
   \<and> BER_decode_key toy_ecc [0x30, 6, 2, 1, 1, 4, 1, 3] = Inr (1, [3])
   \<and> EC_PrivateKey_decode toy_ecc bad_alg_id [0x30, 6, 2, 1, 1, 4, 1, 3] =
       Inl (Internal_Error ''Loaded ECC private key failed self test'')"
proof -
  note ctor = explicit_scalar_constructor_unchecked [of toy_ecc]
  have infinity: "mult toy_ecc (get_base_point toy_domain) 0 = ((17, 2, 2), None)"
    by (simp add: toy_ecc_simps)
  have point: "mult toy_ecc (get_base_point bad_domain) 3 = ((17, 2, 2), Some (16, 6))"
    by (simp add: toy_ecc_simps)
  have invalid: "check_invariants toy_ecc ((17, 2, 2), Some (16, 6)) =
       Some (Illegal_Point ''Invalid ECP point: y^2 not equal to x^3 + a*x + b'')"
    by (simp add: toy_ecc_def)
  have drawn: "random_integer toy_ecc 2 1 (get_order bad_domain) = Inr 3"
    by (simp add: toy_ecc_simps)
  have zero: "private_key (EC_PrivateKey_of_scalar toy_ecc toy_domain 0) = 0"
    "public_key (EC_PrivateKey_of_scalar toy_ecc toy_domain 0) = ((17, 2, 2), None)"
    using ctor [of toy_domain 0] by (simp_all add: infinity)
  have large: "private_key (EC_PrivateKey_of_scalar toy_ecc toy_domain 19) = 19"
    "private_key (EC_PrivateKey_of_scalar toy_ecc toy_domain 300) = 300"
    using ctor [of toy_domain 19] ctor [of toy_domain 300] by simp_all
  have bad: "private_key (EC_PrivateKey_of_scalar toy_ecc bad_domain 3) = 3"
    "public_key (EC_PrivateKey_of_scalar toy_ecc bad_domain 3) = ((17, 2, 2), Some (16, 6))"
    using ctor [of bad_domain 3] by (simp_all add: point)
  have generate: "EC_PrivateKey_generate toy_ecc 2 bad_domain =
       Inl (Internal_Error ''ECC private key generation failed'')"
    using ctor [of bad_domain 3 _ 2] point invalid drawn by simp
  have domain: "decode_domain_params toy_ecc (parameters bad_alg_id) = Inr bad_domain"
    by (simp add: toy_ecc_simps)
  have ber: "BER_decode_key toy_ecc [0x30, 6, 2, 1, 1, 4, 1, 3] = Inr (1, [3])"
    by (simp add: toy_ecc_def)
  have decode: "EC_PrivateKey_decode toy_ecc bad_alg_id [0x30, 6, 2, 1, 1, 4, 1, 3] =
       Inl (Internal_Error ''Loaded ECC private key failed self test'')"
    using ctor [of bad_domain 3 _ _ bad_alg_id "[0x30, 6, 2, 1, 1, 4, 1, 3]" "[3]"]
      point invalid domain ber
    by (simp add: BigInt_decode_single)
  from zero large bad invalid drawn generate domain ber decode show ?thesis
    by (intro conjI)
qed

end
